theory Spec2Isabelle
  imports Main
begin

section \<open>JavaScript values\<close>

text \<open>
  The values that cross the dispatcher. A native \<open>Error\<close> instance carries its
  \<open>message\<close>, \<open>code\<close> and \<open>stack\<close>; a plain object is its list of data
  properties; a local class instance is known by its identity only. Numbers are
  the integers that a JavaScript number holds exactly. The properties of a plain
  object are data, none of them is callable; the callable \<open>then\<close> belongs to a
  promise, the callable \<open>concatMap\<close> and \<open>subscribe\<close> to an observable.

  A promise is modelled by how it settles, or that it never does. An observable
  is modelled by the events that reach the subscriber of \<open>returnObservable\<close>,
  in order: those that arrive while \<open>subscribe\<close> is still running, and those that
  arrive afterwards, one per turn of the event loop. Nothing arrives after an
  error or completion event.
\<close>

datatype jsval =
    JUndefined
  | JNull
  | JBool bool
  | JNum int
  | JStr string
  | JError string jsval string
  | JObject "(string \<times> jsval) list"
  | JInstance nat
  | JPromise settlement
  | JObservable "event list" "event list"
and settlement =
    Resolves jsval
  | Rejects jsval
  | Pending
and event =
    OnNext jsval
  | OnError jsval
  | OnCompleted

text \<open>A call either throws (\<open>Inl\<close> the thrown value) or returns (\<open>Inr\<close>).\<close>

type_synonym 'a result = "jsval + 'a"

type_synonym callable = "jsval list \<Rightarrow> jsval result"

text \<open>\<open>new Error(message)\<close>: no \<open>code\<close>; the stack is cut down to its first line.\<close>

definition newError :: "string \<Rightarrow> jsval" where
  "newError message = JError message JUndefined (''Error: '' @ message)"

definition typeError :: "string \<Rightarrow> jsval" where
  "typeError message = JError message JUndefined (''TypeError: '' @ message)"

text \<open>
  What \<open>invariant(cond)\<close> of the \<open>assert\<close> module throws when \<open>cond\<close> is falsy:
  the message names the falsy value (\<open>undefined\<close> for a missing table entry,
  \<open>false\<close> for a failed comparison), and there is no \<open>code\<close>.
\<close>

definition assertionError :: "string \<Rightarrow> jsval" where
  "assertionError actual =
     JError (actual @ '' == true'') JUndefined (''AssertionError: '' @ actual @ '' == true'')"

fun showNat :: "nat \<Rightarrow> string" where
  "showNat n = (if n < 10 then [''0123456789'' ! n]
                else showNat (n div 10) @ [''0123456789'' ! (n mod 10)])"

declare showNat.simps [simp del]

definition showInt :: "int \<Rightarrow> string" where
  "showInt i = (if i < 0 then ''-'' @ showNat (nat (- i)) else showNat (nat i))"

text \<open>
  \<open>value.toString()\<close>. Reading a property of \<open>undefined\<close> or \<open>null\<close> throws a
  \<open>TypeError\<close>; every other value has a \<open>toString\<close> method. A number prints in
  plain decimal, as JavaScript prints the integers it holds exactly; a promise
  prints as a native promise does.
\<close>

fun toString :: "jsval \<Rightarrow> string result" where
  "toString JUndefined = Inl (typeError ''Cannot read property 'toString' of undefined'')"
| "toString JNull = Inl (typeError ''Cannot read property 'toString' of null'')"
| "toString (JBool b) = Inr (if b then ''true'' else ''false'')"
| "toString (JNum i) = Inr (showInt i)"
| "toString (JStr s) = Inr s"
| "toString (JError m c s) = Inr (''Error: '' @ m)"
| "toString (JObject ps) = Inr ''[object Object]''"
| "toString (JInstance n) = Inr ''[object Object]''"
| "toString (JPromise p) = Inr ''[object Promise]''"
| "toString (JObservable a b) = Inr ''[object Object]''"

text \<open>\<open>Boolean(value)\<close>: what JavaScript takes for true.\<close>

fun truthy :: "jsval \<Rightarrow> bool" where
  "truthy JUndefined = False"
| "truthy JNull = False"
| "truthy (JBool b) = b"
| "truthy (JNum i) = (i \<noteq> 0)"
| "truthy (JStr s) = (s \<noteq> [])"
| "truthy v = True"

text \<open>
  \<open>Boolean(object.name)\<close> for a data property of a plain object; a property
  that the object does not have reads as \<open>undefined\<close>.
\<close>

definition hasTruthy :: "(string \<times> jsval) list \<Rightarrow> string \<Rightarrow> bool" where
  "hasTruthy ps name = (case map_of ps name of None \<Rightarrow> False | Some v \<Rightarrow> truthy v)"

text \<open>\<open>isThenable\<close>: \<open>Boolean(object && object.then)\<close>.\<close>

fun isThenable :: "jsval \<Rightarrow> bool" where
  "isThenable (JPromise p) = True"
| "isThenable (JObject ps) = hasTruthy ps ''then''"
| "isThenable v = False"

text \<open>\<open>isObservable\<close>: \<open>Boolean(object && object.concatMap && object.subscribe)\<close>.\<close>

fun isObservable :: "jsval \<Rightarrow> bool" where
  "isObservable (JObservable a b) = True"
| "isObservable (JObject ps) = (hasTruthy ps ''concatMap'' \<and> hasTruthy ps ''subscribe'')"
| "isObservable v = False"

section \<open>Response messages\<close>

record ResponseMessage =
  channel :: string
  msg_type :: string
  requestId :: nat
  hadError :: bool
  result :: "jsval option"
  error :: "jsval option"

text \<open>
  \<open>formatError\<close>, branch by branch: an \<open>Error\<close> instance, a string, \<open>undefined\<close>,
  and the template literal that calls \<open>error.toString()\<close> on everything else.
\<close>

fun formatError :: "jsval \<Rightarrow> jsval result" where
  "formatError (JError m c s) =
     Inr (JObject [(''message'', JStr m), (''code'', c), (''stack'', JStr s)])"
| "formatError (JStr s) = Inr (JStr s)"
| "formatError JUndefined = Inr JUndefined"
| "formatError v =
     (case toString v of
        Inl e \<Rightarrow> Inl e
      | Inr s \<Rightarrow> Inr (JStr (''Unknown Error: '' @ s)))"

definition createPromiseMessage :: "nat \<Rightarrow> jsval \<Rightarrow> ResponseMessage" where
  "createPromiseMessage rid res =
     \<lparr>channel = ''service_framework3_rpc'', msg_type = ''PromiseMessage'',
      requestId = rid, hadError = False, result = Some res, error = None\<rparr>"

definition createNextMessage :: "nat \<Rightarrow> jsval \<Rightarrow> ResponseMessage" where
  "createNextMessage rid data =
     \<lparr>channel = ''service_framework3_rpc'', msg_type = ''ObservableMessage'',
      requestId = rid, hadError = False,
      result = Some (JObject [(''type'', JStr ''next''), (''data'', data)]), error = None\<rparr>"

definition createCompletedMessage :: "nat \<Rightarrow> ResponseMessage" where
  "createCompletedMessage rid =
     \<lparr>channel = ''service_framework3_rpc'', msg_type = ''ObservableMessage'',
      requestId = rid, hadError = False,
      result = Some (JObject [(''type'', JStr ''completed'')]), error = None\<rparr>"

definition createErrorMessage :: "nat \<Rightarrow> jsval \<Rightarrow> ResponseMessage result" where
  "createErrorMessage rid err =
     (case formatError err of
        Inl e \<Rightarrow> Inl e
      | Inr body \<Rightarrow>
          Inr \<lparr>channel = ''service_framework3_rpc'', msg_type = ''ErrorMessage'',
               requestId = rid, hadError = True, result = None, error = Some body\<rparr>)"

section \<open>Types and definitions of the service parser\<close>

text \<open>
  A type descriptor, as far as the dispatcher looks into it: \<open>returnValue\<close>
  switches on \<open>type.kind\<close> and reads \<open>type.type\<close> of a promise or observable,
  \<open>callConstructor\<close> builds a \<open>named\<close> type (its \<open>location\<close> is not modelled).
  Every other kind is carried by its kind string, which is none of these four.
\<close>

datatype Type =
    VoidType
  | PromiseType Type
  | ObservableType Type
  | NamedType string
  | OtherType string

fun kind :: "Type \<Rightarrow> string" where
  "kind VoidType = ''void''"
| "kind (PromiseType t) = ''promise''"
| "kind (ObservableType t) = ''observable''"
| "kind (NamedType n) = ''named''"
| "kind (OtherType k) = k"

definition voidType :: Type where
  "voidType = VoidType"

record FunctionType =
  argumentTypes :: "Type list"
  returnType :: Type

text \<open>The two method tables are JavaScript \<open>Map\<close>s, iterated in insertion order.\<close>

record InterfaceDefinition =
  if_name :: string
  constructorArgs :: "Type list"
  staticMethods :: "(string \<times> FunctionType) list"
  instanceMethods :: "(string \<times> FunctionType) list"

datatype Definition =
    AliasDef string "Type option"
  | FunctionDef string FunctionType
  | InterfaceDef InterfaceDefinition

section \<open>Local implementations\<close>

text \<open>
  A local implementation is modelled by what one invocation of it does: it throws
  or returns a value. \<open>localImpl[name]\<close> is \<open>None\<close> where the module has no such
  export. A class is its constructor (what \<open>construct\<close> yields for the arguments)
  and its static methods.
\<close>

record ClassImplementation =
  construct :: callable
  statics :: "string \<rightharpoonup> callable"

record Module =
  mod_functions :: "string \<rightharpoonup> callable"
  mod_classes :: "string \<rightharpoonup> ClassImplementation"

record FunctionImplementation =
  fn_localImplementation :: "callable option"
  fn_type :: FunctionType

record ClassEntry =
  cls_localImplementation :: "ClassImplementation option"
  cls_definition :: InterfaceDefinition

record ConfigEntry =
  svc_name :: string
  svc_definition :: string
  svc_implementation :: string

section \<open>Object Registry\<close>

record ObjectRegistration =
  reg_interface :: string
  reg_object :: jsval

record ObjectRegistry =
  registrations :: "nat \<rightharpoonup> ObjectRegistration"
  nextObjectId :: nat
  subscriptions :: "nat \<rightharpoonup> nat"

text \<open>
  Modelled from the spec: the source of \<open>ObjectRegistry\<close> is missing.
  The \<open>UnknownObject\<close> error for an id the registry does not hold, and the
  error for a request id that already has a subscription.
\<close>

definition unknownObject :: "nat \<Rightarrow> jsval" where
  "unknownObject objectId = newError (''UnknownObject: '' @ showNat objectId)"

definition duplicateSubscription :: "nat \<Rightarrow> jsval" where
  "duplicateSubscription rid = newError (''Duplicate subscription: '' @ showNat rid)"

text \<open>
  Modelled from the spec: the source of \<open>ObjectRegistry\<close> is missing.
  \<open>add(interfaceName, instance)\<close> allocates a fresh id, stores the instance with
  its interface name under it and returns the id.
\<close>

definition registryAdd :: "string \<Rightarrow> jsval \<Rightarrow> ObjectRegistry \<Rightarrow> nat \<times> ObjectRegistry" where
  "registryAdd interfaceName instance r =
     (nextObjectId r,
      r\<lparr>registrations := (registrations r)(nextObjectId r \<mapsto>
            \<lparr>reg_interface = interfaceName, reg_object = instance\<rparr>),
        nextObjectId := Suc (nextObjectId r)\<rparr>)"

text \<open>
  Modelled from the spec: the source of \<open>ObjectRegistry\<close> is missing.
  \<open>get(id)\<close> fails with \<open>UnknownObject\<close> if the id is absent. The dispatcher reads
  \<open>_interface\<close> off what \<open>get\<close> returns, so the model returns the instance
  together with its interface name.
\<close>

definition registryGet :: "ObjectRegistry \<Rightarrow> nat \<Rightarrow> ObjectRegistration result" where
  "registryGet r objectId =
     (case registrations r objectId of
        None \<Rightarrow> Inl (unknownObject objectId)
      | Some reg \<Rightarrow> Inr reg)"

text \<open>
  Modelled from the spec: the source of \<open>ObjectRegistry\<close> is missing.
  \<open>addSubscription(requestId, handle)\<close>: at most one subscription per request id,
  a duplicate request id is an error. The handle stored is the identity of the
  Rx subscription.
\<close>

definition addSubscription :: "nat \<Rightarrow> nat \<Rightarrow> ObjectRegistry \<Rightarrow> unit result \<times> ObjectRegistry" where
  "addSubscription rid handle r =
     (case subscriptions r rid of
        Some h \<Rightarrow> (Inl (duplicateSubscription rid), r)
      | None \<Rightarrow> (Inr (), r\<lparr>subscriptions := (subscriptions r)(rid \<mapsto> handle)\<rparr>))"

text \<open>
  Modelled from the spec: the source of \<open>ObjectRegistry\<close> is missing.
  \<open>removeSubscription(requestId)\<close> removes the bookkeeping entry of the request id.
\<close>

definition removeSubscription :: "nat \<Rightarrow> ObjectRegistry \<Rightarrow> ObjectRegistry" where
  "removeSubscription rid r = r\<lparr>subscriptions := (subscriptions r)(rid := None)\<rparr>"

section \<open>External collaborators\<close>

text \<open>
  What the dispatcher consumes and does not define: the schema parser
  (\<open>getDefinitions\<close>), the module loader (\<open>require\<close>), the Type Registry's
  converters for everything but the two marshallers the server registers itself,
  the Type Registry's policy on a name registered twice, the methods of local
  objects (\<open>object[name]\<close>) and their disposal capability (how the promise of
  \<open>object.dispose()\<close> settles, \<open>None\<close> if the object has none).
  The promises of the Type Registry are taken to settle.
\<close>

record externals =
  getDefinitions :: "string \<Rightarrow> Definition list result"
  require :: "string \<Rightarrow> Module result"
  marshalValue :: "jsval \<Rightarrow> Type \<Rightarrow> jsval result"
  unmarshalArguments :: "ObjectRegistry \<Rightarrow> jsval list \<Rightarrow> Type list \<Rightarrow> jsval list result"
  registerTypeError :: "string list \<Rightarrow> string \<Rightarrow> jsval option"
  registerAliasError :: "string list \<Rightarrow> string \<Rightarrow> jsval option"
  methodOf :: "jsval \<Rightarrow> string \<Rightarrow> callable option"
  disposeOf :: "jsval \<Rightarrow> settlement option"

section \<open>The server component\<close>

text \<open>
  The marshallers that \<open>ServerComponent\<close> registers under a type name: the
  identity pair for \<open>NuclideUri\<close>, and for an interface the pair that adds the
  object to the Object Registry and looks an object id up. An alias is kept with
  its target.
\<close>

datatype marshaller =
    IdentityMarshaller
  | ObjectMarshaller string
  | AliasMarshaller Type

record TypeRegistry =
  namedTypes :: "(string \<times> marshaller) list"

record ServerComponent =
  typeRegistry :: TypeRegistry
  functionsByName :: "string \<rightharpoonup> FunctionImplementation"
  classesByName :: "string \<rightharpoonup> ClassEntry"
  objectRegistry :: ObjectRegistry

text \<open>
  Modelled from the spec: the source of \<open>TypeRegistry\<close> is missing.
  \<open>registerType(name, marshaller, unmarshaller)\<close> registers the pair under the
  name; whether a name that is already registered is refused is left to the
  collaborator.
\<close>

definition registerType ::
  "externals \<Rightarrow> string \<Rightarrow> marshaller \<Rightarrow> TypeRegistry \<Rightarrow> unit result \<times> TypeRegistry" where
  "registerType E typeName m t =
     (case registerTypeError E (map fst (namedTypes t)) typeName of
        Some e \<Rightarrow> (Inl e, t)
      | None \<Rightarrow> (Inr (), t\<lparr>namedTypes := (typeName, m) # namedTypes t\<rparr>))"

text \<open>
  Modelled from the spec: the source of \<open>TypeRegistry\<close> is missing.
  \<open>registerAlias(name, type)\<close> registers the alias with its target; whether an
  alias name that is already registered is refused is left to the collaborator.
\<close>

definition registerAlias ::
  "externals \<Rightarrow> string \<Rightarrow> Type \<Rightarrow> TypeRegistry \<Rightarrow> unit result \<times> TypeRegistry" where
  "registerAlias E typeName ty t =
     (case registerAliasError E (map fst (namedTypes t)) typeName of
        Some e \<Rightarrow> (Inl e, t)
      | None \<Rightarrow> (Inr (), t\<lparr>namedTypes := (typeName, AliasMarshaller ty) # namedTypes t\<rparr>))"

text \<open>
  Modelled from the spec: the source of \<open>TypeRegistry\<close> is missing.
  \<open>marshal(value, type)\<close> converts a value to its wire form. A value of a
  registered interface type goes through the marshaller of \<open>addService\<close>, which
  is \<open>object => this._objectRegistry.add(name, object)\<close>; the wire form is the
  object id. \<open>NuclideUri\<close> is left as it is. Everything else is the Type
  Registry's own.
\<close>

definition marshal ::
  "externals \<Rightarrow> jsval \<Rightarrow> Type \<Rightarrow> ServerComponent \<Rightarrow> jsval result \<times> ServerComponent" where
  "marshal E v ty s =
     (case ty of
        NamedType n \<Rightarrow>
          (case map_of (namedTypes (typeRegistry s)) n of
             Some IdentityMarshaller \<Rightarrow> (Inr v, s)
           | Some (ObjectMarshaller name) \<Rightarrow>
               (let (objectId, r) = registryAdd name v (objectRegistry s)
                in (Inr (JNum (int objectId)), s\<lparr>objectRegistry := r\<rparr>))
           | Some (AliasMarshaller t) \<Rightarrow> (marshalValue E v t, s)
           | None \<Rightarrow> (marshalValue E v ty, s))
      | _ \<Rightarrow> (marshalValue E v ty, s))"

subsection \<open>Service registration\<close>

text \<open>\<open>_registerFunction\<close>: the duplicate check, then the \<open>set\<close>.\<close>

definition registerFunction ::
  "string \<Rightarrow> callable option \<Rightarrow> FunctionType \<Rightarrow> ServerComponent \<Rightarrow> unit result \<times> ServerComponent" where
  "registerFunction name localImpl ty s =
     (if name \<in> dom (functionsByName s)
      then (Inl (newError (''Duplicate RPC function: '' @ name)), s)
      else (Inr (), s\<lparr>functionsByName := (functionsByName s)(name \<mapsto>
              \<lparr>fn_localImplementation = localImpl, fn_type = ty\<rparr>)\<rparr>))"

text \<open>
  The \<open>forEach\<close> over the static methods of an interface. \<open>localImpl[name][funcName]\<close>
  throws a \<open>TypeError\<close> when the module does not export the class.
\<close>

fun registerStatics ::
  "string \<Rightarrow> ClassImplementation option \<Rightarrow> (string \<times> FunctionType) list \<Rightarrow> ServerComponent
   \<Rightarrow> unit result \<times> ServerComponent" where
  "registerStatics name cls [] s = (Inr (), s)"
| "registerStatics name cls ((funcName, funcType) # rest) s =
     (case cls of
        None \<Rightarrow> (Inl (typeError (''Cannot read property '' @ funcName @ '' of undefined'')), s)
      | Some c \<Rightarrow>
          (case registerFunction (name @ ''/'' @ funcName) (statics c funcName) funcType s of
             (Inl e, s') \<Rightarrow> (Inl e, s')
           | (Inr u, s') \<Rightarrow> registerStatics name cls rest s'))"

text \<open>The body of \<open>defs.forEach\<close> in \<open>addService\<close>: one definition.\<close>

fun registerDefinition ::
  "externals \<Rightarrow> string \<Rightarrow> Module \<Rightarrow> Definition \<Rightarrow> ServerComponent \<Rightarrow> unit result \<times> ServerComponent" where
  "registerDefinition E serviceName localImpl (AliasDef name target) s =
     (case target of
        None \<Rightarrow> (Inr (), s)
      | Some ty \<Rightarrow>
          (case registerAlias E name ty (typeRegistry s) of
             (r, t) \<Rightarrow> (r, s\<lparr>typeRegistry := t\<rparr>)))"
| "registerDefinition E serviceName localImpl (FunctionDef name ty) s =
     registerFunction (serviceName @ ''/'' @ name) (mod_functions localImpl name) ty s"
| "registerDefinition E serviceName localImpl (InterfaceDef d) s =
     (let name = if_name d;
          s1 = s\<lparr>classesByName := (classesByName s)(name \<mapsto>
                 \<lparr>cls_localImplementation = mod_classes localImpl name, cls_definition = d\<rparr>)\<rparr>
      in case registerType E name (ObjectMarshaller name) (typeRegistry s1) of
           (Inl e, t) \<Rightarrow> (Inl e, s1\<lparr>typeRegistry := t\<rparr>)
         | (Inr u, t) \<Rightarrow>
             registerStatics name (mod_classes localImpl name) (staticMethods d)
               (s1\<lparr>typeRegistry := t\<rparr>))"

fun registerDefinitions ::
  "externals \<Rightarrow> string \<Rightarrow> Module \<Rightarrow> Definition list \<Rightarrow> ServerComponent \<Rightarrow> unit result \<times> ServerComponent" where
  "registerDefinitions E serviceName localImpl [] s = (Inr (), s)"
| "registerDefinitions E serviceName localImpl (d # ds) s =
     (case registerDefinition E serviceName localImpl d s of
        (Inl e, s') \<Rightarrow> (Inl e, s')
      | (Inr u, s') \<Rightarrow> registerDefinitions E serviceName localImpl ds s')"

text \<open>\<open>addService\<close>: whatever is thrown inside the \<open>try\<close> is logged and thrown again.\<close>

definition addService :: "externals \<Rightarrow> ConfigEntry \<Rightarrow> ServerComponent \<Rightarrow> unit result \<times> ServerComponent" where
  "addService E service s =
     (case getDefinitions E (svc_definition service) of
        Inl e \<Rightarrow> (Inl e, s)
      | Inr defs \<Rightarrow>
          (case require E (svc_implementation service) of
             Inl e \<Rightarrow> (Inl e, s)
           | Inr localImpl \<Rightarrow> registerDefinitions E (svc_name service) localImpl defs s))"

fun addServices :: "externals \<Rightarrow> ConfigEntry list \<Rightarrow> ServerComponent \<Rightarrow> unit result \<times> ServerComponent" where
  "addServices E [] s = (Inr (), s)"
| "addServices E (service # services) s =
     (case addService E service s of
        (Inl e, s') \<Rightarrow> (Inl e, s')
      | (Inr u, s') \<Rightarrow> addServices E services s')"

definition emptyRegistry :: ObjectRegistry where
  "emptyRegistry = \<lparr>registrations = Map.empty, nextObjectId = 1, subscriptions = Map.empty\<rparr>"

definition emptyServer :: ServerComponent where
  "emptyServer =
     \<lparr>typeRegistry = \<lparr>namedTypes = []\<rparr>, functionsByName = Map.empty,
      classesByName = Map.empty, objectRegistry = emptyRegistry\<rparr>"

text \<open>The constructor: empty tables, \<open>NuclideUri\<close> registered, then the services.\<close>

definition newServerComponent :: "externals \<Rightarrow> ConfigEntry list \<Rightarrow> unit result \<times> ServerComponent" where
  "newServerComponent E services =
     (let s0 = emptyServer
      in case registerType E ''NuclideUri'' IdentityMarshaller (typeRegistry s0) of
           (Inl e, t) \<Rightarrow> (Inl e, s0\<lparr>typeRegistry := t\<rparr>)
         | (Inr u, t) \<Rightarrow> addServices E services (s0\<lparr>typeRegistry := t\<rparr>))"

section \<open>The world around the dispatcher\<close>

text \<open>
  A live Rx subscription made by \<open>returnObservable\<close>: its callbacks have captured
  the request id and the element type; \<open>ls_pending\<close> are the events the
  observable has not delivered yet. A subscription that has delivered its
  terminal event, or that was disposed, is gone from \<open>streams\<close>.
\<close>

record LiveStream =
  ls_requestId :: nat
  ls_elementType :: Type
  ls_pending :: "event list"

datatype tracking =
    Started string
  | Succeeded string
  | Failed string jsval

text \<open>
  The server component, the subscriptions the Rx runtime holds, what has been
  written to the socket of the client, and what the timing tracker was told.
\<close>

record World =
  server :: ServerComponent
  streams :: "nat \<rightharpoonup> LiveStream"
  nextSubscription :: nat
  sent :: "ResponseMessage list"
  tracked :: "tracking list"

definition setRegistry :: "ObjectRegistry \<Rightarrow> World \<Rightarrow> World" where
  "setRegistry r w = w\<lparr>server := (server w)\<lparr>objectRegistry := r\<rparr>\<rparr>"

definition sendSocketMessage :: "ResponseMessage \<Rightarrow> World \<Rightarrow> World" where
  "sendSocketMessage m w = w\<lparr>sent := sent w @ [m]\<rparr>"

text \<open>
  The timing tracker is the label of its span; \<open>None\<close> stands for a dispatcher
  that starts no span. Its two callbacks only write to the log.
\<close>

definition startTracking :: "string \<Rightarrow> World \<Rightarrow> World" where
  "startTracking label w = w\<lparr>tracked := tracked w @ [Started label]\<rparr>"

definition onSuccess :: "string option \<Rightarrow> World \<Rightarrow> World" where
  "onSuccess tracker w =
     (case tracker of
        None \<Rightarrow> w
      | Some label \<Rightarrow> w\<lparr>tracked := tracked w @ [Succeeded label]\<rparr>)"

definition onError :: "string option \<Rightarrow> jsval \<Rightarrow> World \<Rightarrow> World" where
  "onError tracker e w =
     (case tracker of
        None \<Rightarrow> w
      | Some label \<Rightarrow> w\<lparr>tracked := tracked w @ [Failed label e]\<rparr>)"

text \<open>\<open>error == null ? new Error() : error\<close>\<close>

definition orNewError :: "jsval \<Rightarrow> jsval" where
  "orNewError e = (if e = JNull \<or> e = JUndefined then newError [] else e)"

text \<open>
  Modelled from the spec: the source of \<open>ObjectRegistry\<close> is missing.
  \<open>disposeObject(id)\<close> removes the mapping and invokes the disposal capability of
  the instance if it has one; an unknown id is an error. The method is awaited,
  so the model returns how its promise settles.
\<close>

definition disposeObject :: "externals \<Rightarrow> nat \<Rightarrow> ObjectRegistry \<Rightarrow> settlement \<times> ObjectRegistry" where
  "disposeObject E objectId r =
     (case registrations r objectId of
        None \<Rightarrow> (Rejects (unknownObject objectId), r)
      | Some reg \<Rightarrow>
          (case disposeOf E (reg_object reg) of
             None \<Rightarrow> Resolves JUndefined
           | Some p \<Rightarrow> p,
           r\<lparr>registrations := (registrations r)(objectId := None)\<rparr>))"

text \<open>
  Modelled from the spec: the source of \<open>ObjectRegistry\<close> is missing.
  \<open>disposeSubscription(requestId)\<close> cancels the underlying stream and removes
  the bookkeeping entry.
\<close>

definition disposeSubscription :: "nat \<Rightarrow> World \<Rightarrow> World" where
  "disposeSubscription rid w =
     (case subscriptions (objectRegistry (server w)) rid of
        None \<Rightarrow> w
      | Some h \<Rightarrow>
          (setRegistry (removeSubscription rid (objectRegistry (server w))) w)
            \<lparr>streams := (streams w)(h := None)\<rparr>)"

section \<open>Request messages\<close>

datatype RequestMessage =
    FunctionCall nat string "jsval list"
  | MethodCall nat nat string "jsval list"
  | NewObject nat string "jsval list"
  | DisposeObject nat nat
  | DisposeObservable nat
  | OtherMessage nat string

text \<open>
  The first field is \<open>requestId\<close>. \<open>FunctionCall\<close> then has \<open>function\<close> and \<open>args\<close>;
  \<open>MethodCall\<close> has \<open>objectId\<close>, \<open>method\<close> and \<open>args\<close>; \<open>NewObject\<close> has
  \<open>interface\<close> and \<open>args\<close>; \<open>DisposeObject\<close> has \<open>objectId\<close>. \<open>OtherMessage\<close> is a
  message whose \<open>type\<close> is none of the five, with that type tag.
\<close>

fun requestIdOf :: "RequestMessage \<Rightarrow> nat" where
  "requestIdOf (FunctionCall rid f args) = rid"
| "requestIdOf (MethodCall rid objectId m args) = rid"
| "requestIdOf (NewObject rid i args) = rid"
| "requestIdOf (DisposeObject rid objectId) = rid"
| "requestIdOf (DisposeObservable rid) = rid"
| "requestIdOf (OtherMessage rid tag) = rid"

section \<open>The request dispatcher\<close>

text \<open>How an awaited step of the handler ends.\<close>

datatype 'a completion =
    Returned 'a
  | Threw jsval
  | Hangs

text \<open>How the promise of \<open>handleMessage\<close> settles.\<close>

datatype outcome =
    Fulfilled
  | RejectedWith jsval
  | NeverSettles

subsection \<open>returnPromise\<close>

text \<open>
  The rejection callback of \<open>returnPromise\<close>. \<open>createErrorMessage\<close> is evaluated
  first; if it throws, nothing is sent and the tracker is not told.
\<close>

definition promiseRejected :: "nat \<Rightarrow> string option \<Rightarrow> jsval \<Rightarrow> World \<Rightarrow> World" where
  "promiseRejected rid tracker err w =
     (case createErrorMessage rid err of
        Inl t \<Rightarrow> w
      | Inr m \<Rightarrow> onError tracker (orNewError err) (sendSocketMessage m w))"

text \<open>
  The two \<open>then\<close> steps of \<open>returnPromise\<close>, run as soon as the promise has
  settled: the value is marshalled, then the result or the error is sent.
  A promise that never settles runs neither callback.
\<close>

definition promiseSettled ::
  "externals \<Rightarrow> nat \<Rightarrow> string option \<Rightarrow> Type \<Rightarrow> settlement \<Rightarrow> World \<Rightarrow> World" where
  "promiseSettled E rid tracker ty returnVal w =
     (case returnVal of
        Pending \<Rightarrow> w
      | Rejects err \<Rightarrow> promiseRejected rid tracker err w
      | Resolves v \<Rightarrow>
          (case marshal E v ty (server w) of
             (Inl err, s) \<Rightarrow> promiseRejected rid tracker err (w\<lparr>server := s\<rparr>)
           | (Inr res, s) \<Rightarrow>
               onSuccess tracker
                 (sendSocketMessage (createPromiseMessage rid res) (w\<lparr>server := s\<rparr>))))"

text \<open>
  \<open>returnPromise\<close>. A candidate that is not thenable is replaced by a rejected
  promise. A plain object with a truthy \<open>then\<close> property passes \<open>isThenable\<close>;
  its \<open>then\<close> is not callable, so \<open>returnVal.then(...)\<close> throws.
\<close>

definition returnPromise ::
  "externals \<Rightarrow> nat \<Rightarrow> string option \<Rightarrow> jsval \<Rightarrow> Type \<Rightarrow> World \<Rightarrow> unit result \<times> World" where
  "returnPromise E rid tracker candidate ty w =
     (if \<not> isThenable candidate
      then (Inr (),
            promiseSettled E rid tracker ty
              (Rejects (newError ''Expected a Promise, but the function returned something else.''))
              w)
      else (case candidate of
              JPromise p \<Rightarrow> (Inr (), promiseSettled E rid tracker ty p w)
            | _ \<Rightarrow> (Inl (typeError ''returnVal.then is not a function''), w)))"

subsection \<open>returnObservable\<close>

text \<open>
  The error callback of the subscription: send the error message, then remove
  the subscription. If \<open>createErrorMessage\<close> throws, the callback stops there.
\<close>

definition streamError :: "nat \<Rightarrow> jsval \<Rightarrow> World \<Rightarrow> World" where
  "streamError rid err w =
     (case createErrorMessage rid err of
        Inl t \<Rightarrow> w
      | Inr m \<Rightarrow>
          (let w1 = sendSocketMessage m w
           in setRegistry (removeSubscription rid (objectRegistry (server w1))) w1))"

definition streamCompleted :: "nat \<Rightarrow> World \<Rightarrow> World" where
  "streamCompleted rid w =
     (let w1 = sendSocketMessage (createCompletedMessage rid) w
      in setRegistry (removeSubscription rid (objectRegistry (server w1))) w1)"

text \<open>
  One event of the subscription with handle \<open>h\<close> reaches the subscriber.
  A value goes through \<open>concatMap\<close> first, which marshals it; a marshalling
  failure is the error event of the mapped stream. After an error or completion
  event the subscription is finished.
\<close>

definition deliver :: "externals \<Rightarrow> nat \<Rightarrow> World \<Rightarrow> World" where
  "deliver E h w =
     (case streams w h of
        None \<Rightarrow> w
      | Some ls \<Rightarrow>
          (case ls_pending ls of
             [] \<Rightarrow> w
           | ev # rest \<Rightarrow>
               (case ev of
                  OnNext v \<Rightarrow>
                    (case marshal E v (ls_elementType ls) (server w) of
                       (Inr data, s) \<Rightarrow>
                         sendSocketMessage (createNextMessage (ls_requestId ls) data)
                           (w\<lparr>server := s, streams := (streams w)(h \<mapsto> ls\<lparr>ls_pending := rest\<rparr>)\<rparr>)
                     | (Inl err, s) \<Rightarrow>
                         streamError (ls_requestId ls) err
                           (w\<lparr>server := s, streams := (streams w)(h := None)\<rparr>))
                | OnError err \<Rightarrow>
                    streamError (ls_requestId ls) err (w\<lparr>streams := (streams w)(h := None)\<rparr>)
                | OnCompleted \<Rightarrow>
                    streamCompleted (ls_requestId ls) (w\<lparr>streams := (streams w)(h := None)\<rparr>))))"

fun deliverN :: "externals \<Rightarrow> nat \<Rightarrow> nat \<Rightarrow> World \<Rightarrow> World" where
  "deliverN E h 0 w = w"
| "deliverN E h (Suc n) w = deliverN E h n (deliver E h w)"

text \<open>
  \<open>result.subscribe(...)\<close>: the subscription is made, and the events of the
  synchronous part are delivered before \<open>subscribe\<close> returns its handle.
\<close>

definition subscribe ::
  "externals \<Rightarrow> nat \<Rightarrow> Type \<Rightarrow> event list \<Rightarrow> event list \<Rightarrow> World \<Rightarrow> nat \<times> World" where
  "subscribe E rid elementType sync later w =
     (let h = nextSubscription w;
          w1 = w\<lparr>streams := (streams w)(h \<mapsto>
                   \<lparr>ls_requestId = rid, ls_elementType = elementType, ls_pending = sync @ later\<rparr>),
                 nextSubscription := Suc h\<rparr>
      in (h, deliverN E h (length sync) w1))"

text \<open>
  \<open>returnObservable\<close>. A value that is not observable is replaced by
  \<open>Observable.throw(...)\<close>, which errors while \<open>subscribe\<close> runs. A plain object
  with truthy \<open>concatMap\<close> and \<open>subscribe\<close> properties passes \<open>isObservable\<close>;
  its \<open>concatMap\<close> is not callable, so \<open>result.concatMap(...)\<close> throws.
\<close>

definition returnObservable ::
  "externals \<Rightarrow> nat \<Rightarrow> jsval \<Rightarrow> Type \<Rightarrow> World \<Rightarrow> unit result \<times> World" where
  "returnObservable E rid returnVal elementType w =
     (case (if \<not> isObservable returnVal
            then Inr ([OnError (newError
                   ''Expected an Observable, but the function returned something else.'')], [])
            else (case returnVal of
                    JObservable a b \<Rightarrow> Inr (a, b)
                  | _ \<Rightarrow> Inl (typeError ''result.concatMap is not a function''))) of
        Inl e \<Rightarrow> (Inl e, w)
      | Inr (sync, later) \<Rightarrow>
          (let (h, w1) = subscribe E rid elementType sync later w
           in case addSubscription rid h (objectRegistry (server w1)) of
                (r, reg) \<Rightarrow> (r, setRegistry reg w1)))"

subsection \<open>returnValue and the three calls\<close>

definition returnValue ::
  "externals \<Rightarrow> nat \<Rightarrow> string option \<Rightarrow> jsval \<Rightarrow> Type \<Rightarrow> World \<Rightarrow> bool completion \<times> World" where
  "returnValue E rid tracker v ty w =
     (case ty of
        VoidType \<Rightarrow> (Returned False, w)
      | PromiseType t \<Rightarrow>
          (case returnPromise E rid tracker v t w of
             (Inl e, w') \<Rightarrow> (Threw e, w')
           | (Inr u, w') \<Rightarrow> (Returned True, w'))
      | ObservableType t \<Rightarrow>
          (case returnObservable E rid v t w of
             (Inl e, w') \<Rightarrow> (Threw e, w')
           | (Inr u, w') \<Rightarrow> (Returned False, w'))
      | _ \<Rightarrow> (Threw (newError (''Unkown return type '' @ kind ty @ ''.'')), w))"

text \<open>\<open>_getFunctionImplemention\<close>: the lookup and its \<open>invariant\<close>.\<close>

definition getFunctionImplemention :: "ServerComponent \<Rightarrow> string \<Rightarrow> FunctionImplementation result" where
  "getFunctionImplemention s name =
     (case functionsByName s name of
        None \<Rightarrow> Inl (assertionError ''undefined'')
      | Some impl \<Rightarrow> Inr impl)"

text \<open>\<open>f.apply(this, args)\<close>, where \<open>f\<close> may be \<open>undefined\<close>.\<close>

definition applyTo :: "callable option \<Rightarrow> jsval list \<Rightarrow> jsval result" where
  "applyTo f args =
     (case f of
        None \<Rightarrow> Inl (typeError ''Cannot read property 'apply' of undefined'')
      | Some g \<Rightarrow> g args)"

definition callFunction ::
  "externals \<Rightarrow> nat \<Rightarrow> string option \<Rightarrow> string \<Rightarrow> jsval list \<Rightarrow> World \<Rightarrow> bool completion \<times> World" where
  "callFunction E rid tracker fname args w =
     (case getFunctionImplemention (server w) fname of
        Inl e \<Rightarrow> (Threw e, w)
      | Inr impl \<Rightarrow>
          (case unmarshalArguments E (objectRegistry (server w)) args
                  (argumentTypes (fn_type impl)) of
             Inl e \<Rightarrow> (Threw e, w)
           | Inr marshalledArgs \<Rightarrow>
               (case applyTo (fn_localImplementation impl) marshalledArgs of
                  Inl e \<Rightarrow> (Threw e, w)
                | Inr v \<Rightarrow> returnValue E rid tracker v (returnType (fn_type impl)) w)))"

definition callMethod ::
  "externals \<Rightarrow> nat \<Rightarrow> string option \<Rightarrow> nat \<Rightarrow> string \<Rightarrow> jsval list \<Rightarrow> World
   \<Rightarrow> bool completion \<times> World" where
  "callMethod E rid tracker objectId method args w =
     (case registryGet (objectRegistry (server w)) objectId of
        Inl e \<Rightarrow> (Threw e, w)
      | Inr obj \<Rightarrow>
          (case classesByName (server w) (reg_interface obj) of
             None \<Rightarrow> (Threw (assertionError ''false''), w)
           | Some classDefinition \<Rightarrow>
               (case map_of (instanceMethods (cls_definition classDefinition)) method of
                  None \<Rightarrow> (Threw (assertionError ''false''), w)
                | Some ty \<Rightarrow>
                    (case unmarshalArguments E (objectRegistry (server w)) args
                            (argumentTypes ty) of
                       Inl e \<Rightarrow> (Threw e, w)
                     | Inr marshalledArgs \<Rightarrow>
                         (case applyTo (methodOf E (reg_object obj) method) marshalledArgs of
                            Inl e \<Rightarrow> (Threw e, w)
                          | Inr v \<Rightarrow> returnValue E rid tracker v (returnType ty) w)))))"

text \<open>
  \<open>Promise.resolve(value)\<close>: a promise is returned as it is, any other value
  becomes the value of a fulfilled promise.
\<close>

definition promiseResolve :: "jsval \<Rightarrow> jsval" where
  "promiseResolve v = (case v of JPromise p \<Rightarrow> JPromise p | _ \<Rightarrow> JPromise (Resolves v))"

definition callConstructor ::
  "externals \<Rightarrow> nat \<Rightarrow> string option \<Rightarrow> string \<Rightarrow> jsval list \<Rightarrow> World \<Rightarrow> unit completion \<times> World" where
  "callConstructor E rid tracker interface args w =
     (case classesByName (server w) interface of
        None \<Rightarrow> (Threw (assertionError ''false''), w)
      | Some classDefinition \<Rightarrow>
          (case unmarshalArguments E (objectRegistry (server w)) args
                  (constructorArgs (cls_definition classDefinition)) of
             Inl e \<Rightarrow> (Threw e, w)
           | Inr marshalledArgs \<Rightarrow>
               (case cls_localImplementation classDefinition of
                  None \<Rightarrow> (Threw (typeError ''Cannot read property 'prototype' of undefined''), w)
                | Some c \<Rightarrow>
                    (case construct c marshalledArgs of
                       Inl e \<Rightarrow> (Threw e, w)
                     | Inr newObject \<Rightarrow>
                         (case returnPromise E rid tracker (promiseResolve newObject)
                                 (NamedType interface) w of
                            (Inl e, w') \<Rightarrow> (Threw e, w')
                          | (Inr u, w') \<Rightarrow> (Returned (), w'))))))"

subsection \<open>handleMessage\<close>

definition trackingIdOfMessage :: "ServerComponent \<Rightarrow> RequestMessage \<Rightarrow> string result" where
  "trackingIdOfMessage s message =
     (case message of
        FunctionCall rid f args \<Rightarrow> Inr (''service-framework:'' @ f)
      | MethodCall rid objectId m args \<Rightarrow>
          (case registryGet (objectRegistry s) objectId of
             Inl e \<Rightarrow> Inl e
           | Inr obj \<Rightarrow> Inr (''service-framework:'' @ reg_interface obj @ ''.'' @ m))
      | NewObject rid i args \<Rightarrow> Inr (''service-framework:new:'' @ i)
      | DisposeObject rid objectId \<Rightarrow>
          (case registryGet (objectRegistry s) objectId of
             Inl e \<Rightarrow> Inl e
           | Inr obj \<Rightarrow> Inr (''service-framework:dispose:'' @ reg_interface obj))
      | DisposeObservable rid \<Rightarrow> Inr ''service-framework:disposeObservable''
      | OtherMessage rid tag \<Rightarrow> Inl (newError (''Unknown message type '' @ tag)))"

text \<open>The \<open>switch\<close> inside the \<open>try\<close>; the boolean is \<open>returnedPromise\<close>.\<close>

definition switchMessage ::
  "externals \<Rightarrow> string option \<Rightarrow> RequestMessage \<Rightarrow> World \<Rightarrow> bool completion \<times> World" where
  "switchMessage E tracker message w =
     (case message of
        FunctionCall rid f args \<Rightarrow> callFunction E rid tracker f args w
      | MethodCall rid objectId m args \<Rightarrow> callMethod E rid tracker objectId m args w
      | NewObject rid i args \<Rightarrow>
          (case callConstructor E rid tracker i args w of
             (Returned u, w') \<Rightarrow> (Returned True, w')
           | (Threw e, w') \<Rightarrow> (Threw e, w')
           | (Hangs, w') \<Rightarrow> (Hangs, w'))
      | DisposeObject rid objectId \<Rightarrow>
          (case disposeObject E objectId (objectRegistry (server w)) of
             (Rejects e, r) \<Rightarrow> (Threw e, setRegistry r w)
           | (Pending, r) \<Rightarrow> (Hangs, setRegistry r w)
           | (Resolves v, r) \<Rightarrow>
               (case returnPromise E rid tracker (promiseResolve JUndefined) voidType
                       (setRegistry r w) of
                  (Inl e, w') \<Rightarrow> (Threw e, w')
                | (Inr u, w') \<Rightarrow> (Returned True, w')))
      | DisposeObservable rid \<Rightarrow> (Returned False, disposeSubscription rid w)
      | OtherMessage rid tag \<Rightarrow> (Threw (newError (''Unkown message type '' @ tag)), w))"

text \<open>
  The \<open>try\<close> and its \<open>catch\<close>. In the \<open>catch\<close>, the tracker is told first and the
  error message is built after it; if building it throws, the handler rejects.
\<close>

definition tryCatch ::
  "externals \<Rightarrow> string option \<Rightarrow> RequestMessage \<Rightarrow> World \<Rightarrow> outcome \<times> World" where
  "tryCatch E tracker message w =
     (case switchMessage E tracker message w of
        (Returned returnedPromise, w') \<Rightarrow>
          (Fulfilled, if \<not> returnedPromise then onSuccess tracker w' else w')
      | (Threw e, w') \<Rightarrow>
          (let w2 = onError tracker (orNewError e) w'
           in case createErrorMessage (requestIdOf message) e of
                Inl t \<Rightarrow> (RejectedWith t, w2)
              | Inr m \<Rightarrow> (Fulfilled, sendSocketMessage m w2))
      | (Hangs, w') \<Rightarrow> (NeverSettles, w'))"

text \<open>
  \<open>handleMessage\<close>: the tracking span is started from the label before the
  \<open>try\<close> is entered, so what \<open>trackingIdOfMessage\<close> throws rejects the promise
  of the handler.
\<close>

definition handleMessage :: "externals \<Rightarrow> RequestMessage \<Rightarrow> World \<Rightarrow> outcome \<times> World" where
  "handleMessage E message w =
     (case trackingIdOfMessage (server w) message of
        Inl e \<Rightarrow> (RejectedWith e, w)
      | Inr label \<Rightarrow> tryCatch E (Some label) message (startTracking label w))"

text \<open>
  The dispatcher of the specification with the timing hook taken out: no label
  is computed and no span is started.
\<close>

definition handleMessageUntracked :: "externals \<Rightarrow> RequestMessage \<Rightarrow> World \<Rightarrow> outcome \<times> World" where
  "handleMessageUntracked E message w = tryCatch E None message w"

subsection \<open>A call across its await\<close>

text \<open>
  \<open>callFunction\<close> and \<open>callMethod\<close> await \<open>unmarshalArguments\<close> before they
  invoke the local implementation, and the handler of another message can run
  while they wait. A call that waits has computed its label, started its span,
  looked its target up and started to unmarshal its arguments; what it keeps is
  the request id, the tracker, the callable (\<open>localImplementation\<close> or
  \<open>object[call.method]\<close>), the declared return type and how the promise of
  \<open>unmarshalArguments\<close> settles.
\<close>

record PendingCall =
  pc_requestId :: nat
  pc_tracker :: "string option"
  pc_target :: "callable option"
  pc_returnType :: Type
  pc_arguments :: "jsval list result"

datatype begun =
    Settled outcome
  | Suspended PendingCall

text \<open>The \<open>catch\<close> block of \<open>handleMessage\<close>.\<close>

definition catchBlock :: "string option \<Rightarrow> nat \<Rightarrow> jsval \<Rightarrow> World \<Rightarrow> outcome \<times> World" where
  "catchBlock tracker rid e w =
     (let w2 = onError tracker (orNewError e) w
      in case createErrorMessage rid e of
           Inl t \<Rightarrow> (RejectedWith t, w2)
         | Inr m \<Rightarrow> (Fulfilled, sendSocketMessage m w2))"

text \<open>
  \<open>handleMessage\<close> up to the \<open>await\<close> of \<open>unmarshalArguments\<close>. A message that
  is not a function or method call is handled as a whole.
\<close>

definition beginCall :: "externals \<Rightarrow> RequestMessage \<Rightarrow> World \<Rightarrow> begun \<times> World" where
  "beginCall E message w =
     (case trackingIdOfMessage (server w) message of
        Inl e \<Rightarrow> (Settled (RejectedWith e), w)
      | Inr label \<Rightarrow>
          (let w0 = startTracking label w
           in case message of
                FunctionCall rid f args \<Rightarrow>
                  (case getFunctionImplemention (server w0) f of
                     Inl e \<Rightarrow>
                       (case catchBlock (Some label) rid e w0 of (out, w') \<Rightarrow> (Settled out, w'))
                   | Inr impl \<Rightarrow>
                       (Suspended
                          \<lparr>pc_requestId = rid, pc_tracker = Some label,
                           pc_target = fn_localImplementation impl,
                           pc_returnType = returnType (fn_type impl),
                           pc_arguments =
                             unmarshalArguments E (objectRegistry (server w0)) args
                               (argumentTypes (fn_type impl))\<rparr>,
                        w0))
              | MethodCall rid objectId m args \<Rightarrow>
                  (case registryGet (objectRegistry (server w0)) objectId of
                     Inl e \<Rightarrow>
                       (case catchBlock (Some label) rid e w0 of (out, w') \<Rightarrow> (Settled out, w'))
                   | Inr obj \<Rightarrow>
                       (case classesByName (server w0) (reg_interface obj) of
                          None \<Rightarrow>
                            (case catchBlock (Some label) rid (assertionError ''false'') w0 of
                               (out, w') \<Rightarrow> (Settled out, w'))
                        | Some classDefinition \<Rightarrow>
                            (case map_of (instanceMethods (cls_definition classDefinition)) m of
                               None \<Rightarrow>
                                 (case catchBlock (Some label) rid (assertionError ''false'') w0 of
                                    (out, w') \<Rightarrow> (Settled out, w'))
                             | Some ty \<Rightarrow>
                                 (Suspended
                                    \<lparr>pc_requestId = rid, pc_tracker = Some label,
                                     pc_target = methodOf E (reg_object obj) m,
                                     pc_returnType = returnType ty,
                                     pc_arguments =
                                       unmarshalArguments E (objectRegistry (server w0)) args
                                         (argumentTypes ty)\<rparr>,
                                  w0))))
              | _ \<Rightarrow>
                  (case tryCatch E (Some label) message w0 of (out, w') \<Rightarrow> (Settled out, w'))))"

text \<open>
  The rest of the call, once the promise of \<open>unmarshalArguments\<close> has settled,
  in the world as it is by then: the invocation, \<open>returnValue\<close>, and the end of
  the \<open>try\<close> or the \<open>catch\<close>.
\<close>

definition resumeCall :: "externals \<Rightarrow> PendingCall \<Rightarrow> World \<Rightarrow> outcome \<times> World" where
  "resumeCall E p w =
     (case pc_arguments p of
        Inl e \<Rightarrow> catchBlock (pc_tracker p) (pc_requestId p) e w
      | Inr marshalledArgs \<Rightarrow>
          (case applyTo (pc_target p) marshalledArgs of
             Inl e \<Rightarrow> catchBlock (pc_tracker p) (pc_requestId p) e w
           | Inr v \<Rightarrow>
               (case returnValue E (pc_requestId p) (pc_tracker p) v (pc_returnType p) w of
                  (Returned returnedPromise, w') \<Rightarrow>
                    (Fulfilled, if \<not> returnedPromise then onSuccess (pc_tracker p) w' else w')
                | (Threw e, w') \<Rightarrow> catchBlock (pc_tracker p) (pc_requestId p) e w'
                | (Hangs, w') \<Rightarrow> (NeverSettles, w'))))"

definition resumeBegun :: "externals \<Rightarrow> begun \<Rightarrow> World \<Rightarrow> outcome \<times> World" where
  "resumeBegun E b w = (case b of Settled out \<Rightarrow> (out, w) | Suspended p \<Rightarrow> resumeCall E p w)"

section \<open>Example configurations\<close>

text \<open>A connection on which nothing has happened yet, for a server without services.\<close>

definition emptyWorld :: World where
  "emptyWorld =
     \<lparr>server = emptyServer, streams = Map.empty, nextSubscription = 0, sent = [], tracked = []\<rparr>"

text \<open>
  Collaborators that convert nothing: values are their own wire form, no type
  name is refused, local objects have no methods and no disposal capability.
\<close>

definition plainExternals :: externals where
  "plainExternals =
     \<lparr>getDefinitions = (\<lambda>p. Inr []),
      require = (\<lambda>p. Inr \<lparr>mod_functions = Map.empty, mod_classes = Map.empty\<rparr>),
      marshalValue = (\<lambda>v t. Inr v),
      unmarshalArguments = (\<lambda>r args tys. Inr args),
      registerTypeError = (\<lambda>names n. None),
      registerAliasError = (\<lambda>names n. None),
      methodOf = (\<lambda>obj m. None),
      disposeOf = (\<lambda>obj. None)\<rparr>"

text \<open>A server with one function that takes no arguments.\<close>

definition worldWith :: "string \<Rightarrow> callable \<Rightarrow> Type \<Rightarrow> World" where
  "worldWith name f ty =
     emptyWorld\<lparr>server := emptyServer\<lparr>functionsByName :=
       [name \<mapsto> \<lparr>fn_localImplementation = Some f,
                  fn_type = \<lparr>argumentTypes = [], returnType = ty\<rparr>\<rparr>]\<rparr>\<rparr>"

text \<open>A server with the interface \<open>Counter\<close>, registered through \<open>addService\<close>.\<close>

definition counterDefinition :: InterfaceDefinition where
  "counterDefinition =
     \<lparr>if_name = ''Counter'', constructorArgs = [OtherType ''number''], staticMethods = [],
      instanceMethods = [(''increment'', \<lparr>argumentTypes = [], returnType = PromiseType (OtherType ''number'')\<rparr>)]\<rparr>"

definition counterExternals :: externals where
  "counterExternals =
     plainExternals\<lparr>
       getDefinitions := (\<lambda>p. Inr [InterfaceDef counterDefinition]),
       require := (\<lambda>p. Inr \<lparr>mod_functions = Map.empty,
                              mod_classes = [''Counter'' \<mapsto>
                                \<lparr>construct = (\<lambda>args. Inr (JInstance 0)), statics = Map.empty\<rparr>]\<rparr>)\<rparr>"

definition counterWorld :: World where
  "counterWorld =
     emptyWorld\<lparr>server := snd (newServerComponent counterExternals
       [\<lparr>svc_name = ''CounterService'', svc_definition = ''Counter.def'',
         svc_implementation = ''Counter.js''\<rparr>])\<rparr>"

text \<open>A module that exports another \<open>Counter\<close>, with a static method.\<close>

definition counterModule :: Module where
  "counterModule =
     \<lparr>mod_functions = Map.empty,
      mod_classes = [''Counter'' \<mapsto>
        \<lparr>construct = (\<lambda>args. Inr (JInstance 1)),
         statics = [''create'' \<mapsto> (\<lambda>args. Inr (JPromise (Resolves (JInstance 2))))]\<rparr>]\<rparr>"

definition counterWithStatic :: InterfaceDefinition where
  "counterWithStatic =
     counterDefinition\<lparr>staticMethods :=
       [(''create'', \<lparr>argumentTypes = [], returnType = PromiseType (NamedType ''Counter'')\<rparr>)]\<rparr>"

text \<open>
  A server with one function of observable return kind, whose stream emits one
  value and completes after \<open>subscribe\<close> has returned; and a call of it.
\<close>

definition watchWorld :: World where
  "watchWorld =
     worldWith ''svc/watch'' (\<lambda>args. Inr (JObservable [] [OnNext (JNum 1), OnCompleted]))
       (ObservableType (OtherType ''number''))"

definition watchCall :: RequestMessage where
  "watchCall = FunctionCall 4 ''svc/watch'' []"

text \<open>The call of \<open>watchCall\<close> while it awaits its arguments.\<close>

definition watchPending :: PendingCall where
  "watchPending =
     \<lparr>pc_requestId = 4, pc_tracker = Some ''service-framework:svc/watch'',
      pc_target = Some (\<lambda>args. Inr (JObservable [] [OnNext (JNum 1), OnCompleted])),
      pc_returnType = ObservableType (OtherType ''number''),
      pc_arguments = Inr []\<rparr>"

section \<open>Streams over time\<close>

text \<open>
  The wire forms of the values \<open>v1..vn\<close> of a stream, marshalled one after the
  other in emission order.
\<close>

fun marshalAll ::
  "externals \<Rightarrow> Type \<Rightarrow> jsval list \<Rightarrow> ServerComponent \<Rightarrow> jsval list result \<times> ServerComponent" where
  "marshalAll E t [] s = (Inr [], s)"
| "marshalAll E t (v # vs) s =
     (case marshal E v t s of
        (Inl e, s1) \<Rightarrow> (Inl e, s1)
      | (Inr d, s1) \<Rightarrow>
          (case marshalAll E t vs s1 of
             (Inl e, s2) \<Rightarrow> (Inl e, s2)
           | (Inr ds, s2) \<Rightarrow> (Inr (d # ds), s2)))"

text \<open>
  A schedule: the handles of the subscriptions that deliver their next event, in
  the order in which the event loop lets them.
\<close>

definition deliveries :: "externals \<Rightarrow> nat list \<Rightarrow> World \<Rightarrow> World" where
  "deliveries E hs w = foldl (\<lambda>x h. deliver E h x) w hs"

text \<open>The server component with another table of subscriptions.\<close>

definition withSubscriptions :: "(nat \<rightharpoonup> nat) \<Rightarrow> ServerComponent \<Rightarrow> ServerComponent" where
  "withSubscriptions m s = s\<lparr>objectRegistry := (objectRegistry s)\<lparr>subscriptions := m\<rparr>\<rparr>"

text \<open>
  The subscription \<open>h\<close> of request \<open>rid\<close> still has the values \<open>vs\<close> and the
  completion to deliver, and the values marshal to \<open>ds\<close>.
\<close>

definition emitting :: "externals \<Rightarrow> nat \<Rightarrow> nat \<Rightarrow> Type \<Rightarrow> jsval list \<Rightarrow> jsval list \<Rightarrow> World \<Rightarrow> bool" where
  "emitting E h rid t vs ds x \<longleftrightarrow>
     streams x h = Some \<lparr>ls_requestId = rid, ls_elementType = t,
                         ls_pending = map OnNext vs @ [OnCompleted]\<rparr>
     \<and> fst (marshalAll E t vs (server x)) = Inr ds"

text \<open>
  No live subscription sends for \<open>rid\<close>; the only subscription that may send for
  \<open>rid\<close> is \<open>h0\<close>; and \<open>h0\<close>, while it lives, is the one the registry holds for
  \<open>rid\<close> (\<open>registered\<close>) or is about to hold (\<open>registering\<close>).
\<close>

definition quiet :: "nat \<Rightarrow> World \<Rightarrow> bool" where
  "quiet rid x \<longleftrightarrow> (\<forall>h ls. streams x h = Some ls \<longrightarrow> ls_requestId ls \<noteq> rid)"

definition onlyAt :: "nat \<Rightarrow> nat \<Rightarrow> World \<Rightarrow> bool" where
  "onlyAt rid h0 x \<longleftrightarrow> (\<forall>h ls. streams x h = Some ls \<longrightarrow> ls_requestId ls = rid \<longrightarrow> h = h0)"

definition registered :: "nat \<Rightarrow> nat \<Rightarrow> World \<Rightarrow> bool" where
  "registered rid h0 x \<longleftrightarrow>
     onlyAt rid h0 x \<and>
     (streams x h0 \<noteq> None \<longrightarrow> subscriptions (objectRegistry (server x)) rid = Some h0)"

definition registering :: "nat \<Rightarrow> nat \<Rightarrow> World \<Rightarrow> bool" where
  "registering rid h0 x \<longleftrightarrow>
     onlyAt rid h0 x \<and>
     (subscriptions (objectRegistry (server x)) rid = None
      \<or> subscriptions (objectRegistry (server x)) rid = Some h0)"

text \<open>The world with what the timing tracker was told left out.\<close>

definition untracked :: "World \<Rightarrow> World" where
  "untracked w = w\<lparr>tracked := []\<rparr>"

section \<open>Properties\<close>

subsection \<open>Error formatting\<close>

lemma formatError_shapes:
  "formatError (JError m c s) =
     Inr (JObject [(''message'', JStr m), (''code'', c), (''stack'', JStr s)])"
  "formatError (JStr s) = Inr (JStr s)"
  "formatError JUndefined = Inr JUndefined"
  by simp_all

lemma formatError_other:
  assumes "v \<noteq> JNull" and "v \<noteq> JUndefined"
    and "\<forall>m c s. v \<noteq> JError m c s" and "\<forall>s. v \<noteq> JStr s"
  shows "\<exists>s. formatError v = Inr (JStr (''Unknown Error: '' @ s))"
  using assms by (cases v) simp_all

lemma createErrorMessage_newError:
  "createErrorMessage rid (newError msg) =
     Inr \<lparr>channel = ''service_framework3_rpc'', msg_type = ''ErrorMessage'',
          requestId = rid, hadError = True, result = None,
          error = Some (JObject [(''message'', JStr msg), (''code'', JUndefined),
                                 (''stack'', JStr (''Error: '' @ msg))])\<rparr>"
  by (simp add: createErrorMessage_def newError_def)

text \<open>
  C9. \<open>formatError\<close> is claimed to return a string prefixed with
  \<open>Unknown Error:\<close> for every value that is neither an \<open>Error\<close>, a string nor
  \<open>undefined\<close>. For \<open>null\<close> the code reaches \<open>error.toString()\<close> and throws a
  \<open>TypeError\<close> instead of returning.
\<close>

theorem formatError_null_throws:
  "formatError JNull = Inl (typeError ''Cannot read property 'toString' of null'')"
  by simp

subsection \<open>Registration\<close>

text \<open>
  C6. Registering a function under a qualified name that the function table
  already holds fails with the duplicate error, and the server component,
  the entry under that name included, is what it was.
\<close>

theorem registerFunction_duplicate:
  "functionsByName s name = Some entry \<Longrightarrow>
   registerFunction name localImpl ty s =
     (Inl (newError (''Duplicate RPC function: '' @ name)), s)
   \<and> functionsByName (snd (registerFunction name localImpl ty s)) name = Some entry"
  by (simp add: registerFunction_def dom_def)

theorem registerFunction_duplicate_witness:
  "functionsByName
     (snd (registerFunction ''svc/f'' None \<lparr>argumentTypes = [], returnType = VoidType\<rparr>
             emptyServer)) ''svc/f''
     = Some \<lparr>fn_localImplementation = None,
              fn_type = \<lparr>argumentTypes = [], returnType = VoidType\<rparr>\<rparr>
   \<and> registerFunction ''svc/f'' (Some (\<lambda>args. Inr JNull))
        \<lparr>argumentTypes = [], returnType = PromiseType VoidType\<rparr>
        (snd (registerFunction ''svc/f'' None \<lparr>argumentTypes = [], returnType = VoidType\<rparr>
                emptyServer))
      = (Inl (newError ''Duplicate RPC function: svc/f''),
         snd (registerFunction ''svc/f'' None \<lparr>argumentTypes = [], returnType = VoidType\<rparr>
                emptyServer))"
proof -
  have h: "functionsByName
     (snd (registerFunction ''svc/f'' None \<lparr>argumentTypes = [], returnType = VoidType\<rparr>
             emptyServer)) ''svc/f''
     = Some \<lparr>fn_localImplementation = None,
              fn_type = \<lparr>argumentTypes = [], returnType = VoidType\<rparr>\<rparr>"
    by (simp add: registerFunction_def emptyServer_def)
  from registerFunction_duplicate [OF h, of "Some (\<lambda>args. Inr JNull)"
      "\<lparr>argumentTypes = [], returnType = PromiseType VoidType\<rparr>"] h
  show ?thesis by simp
qed

subsection \<open>Errors at the dispatcher boundary\<close>

text \<open>
  C8. A message whose type tag is none of the five is claimed to be answered
  with an \<open>ErrorMessage\<close> carrying its request id. The label of the tracking
  span is computed before the \<open>try\<close>, and \<open>trackingIdOfMessage\<close> throws for such
  a message: the handler rejects and the connection state is untouched, so
  nothing is sent.
\<close>

theorem unknown_message_type_gets_no_reply:
  "handleMessage E (OtherMessage rid tag) w =
     (RejectedWith (newError (''Unknown message type '' @ tag)), w)"
  by (simp add: handleMessage_def trackingIdOfMessage_def)

lemma handleMessageUntracked_threw:
  assumes "switchMessage E None message w = (Threw (newError msg), w)"
  shows "sent (snd (handleMessageUntracked E message w)) =
           sent w @ [\<lparr>channel = ''service_framework3_rpc'', msg_type = ''ErrorMessage'',
                       requestId = requestIdOf message, hadError = True, result = None,
                       error = Some (JObject [(''message'', JStr msg), (''code'', JUndefined),
                                               (''stack'', JStr (''Error: '' @ msg))])\<rparr>]"
  using assms
  by (simp add: handleMessageUntracked_def tryCatch_def createErrorMessage_newError
      sendSocketMessage_def onError_def Let_def)

text \<open>
  C2. The responses are claimed to be the same with and without the tracking
  span, the computation of its label included. For a method call or a disposal
  on an object id that the registry does not hold, and for a message of unknown
  type, the handler sends nothing, while the same dispatcher without the span
  sends the \<open>ErrorMessage\<close> of its \<open>catch\<close>.
\<close>

theorem tracking_label_changes_responses:
  assumes "registrations (objectRegistry (server w)) objectId = None"
  shows "sent (snd (handleMessage E (MethodCall rid objectId m args) w)) = sent w
       \<and> sent (snd (handleMessageUntracked E (MethodCall rid objectId m args) w)) =
           sent w @ [\<lparr>channel = ''service_framework3_rpc'', msg_type = ''ErrorMessage'',
                       requestId = rid, hadError = True, result = None,
                       error = Some (JObject
                         [(''message'', JStr (''UnknownObject: '' @ showNat objectId)),
                          (''code'', JUndefined),
                          (''stack'', JStr (''Error: UnknownObject: '' @ showNat objectId))])\<rparr>]
       \<and> sent (snd (handleMessage E (DisposeObject rid objectId) w)) = sent w
       \<and> sent (snd (handleMessageUntracked E (DisposeObject rid objectId) w)) =
           sent w @ [\<lparr>channel = ''service_framework3_rpc'', msg_type = ''ErrorMessage'',
                       requestId = rid, hadError = True, result = None,
                       error = Some (JObject
                         [(''message'', JStr (''UnknownObject: '' @ showNat objectId)),
                          (''code'', JUndefined),
                          (''stack'', JStr (''Error: UnknownObject: '' @ showNat objectId))])\<rparr>]
       \<and> sent (snd (handleMessage E (OtherMessage rid tag) w)) = sent w
       \<and> sent (snd (handleMessageUntracked E (OtherMessage rid tag) w)) =
           sent w @ [\<lparr>channel = ''service_framework3_rpc'', msg_type = ''ErrorMessage'',
                       requestId = rid, hadError = True, result = None,
                       error = Some (JObject
                         [(''message'', JStr (''Unkown message type '' @ tag)),
                          (''code'', JUndefined),
                          (''stack'', JStr (''Error: Unkown message type '' @ tag))])\<rparr>]"
proof -
  have tracked: "sent (snd (handleMessage E (MethodCall rid objectId m args) w)) = sent w"
    "sent (snd (handleMessage E (DisposeObject rid objectId) w)) = sent w"
    "sent (snd (handleMessage E (OtherMessage rid tag) w)) = sent w"
    using assms by (simp_all add: handleMessage_def trackingIdOfMessage_def registryGet_def)
  have m: "switchMessage E None (MethodCall rid objectId m args) w
             = (Threw (newError (''UnknownObject: '' @ showNat objectId)), w)"
    using assms
    by (simp add: switchMessage_def callMethod_def registryGet_def unknownObject_def)
  have d: "switchMessage E None (DisposeObject rid objectId) w
             = (Threw (newError (''UnknownObject: '' @ showNat objectId)), w)"
    using assms
    by (simp add: switchMessage_def disposeObject_def unknownObject_def setRegistry_def)
  have t: "switchMessage E None (OtherMessage rid tag) w
             = (Threw (newError (''Unkown message type '' @ tag)), w)"
    by (simp add: switchMessage_def)
  from tracked handleMessageUntracked_threw [OF m] handleMessageUntracked_threw [OF d]
    handleMessageUntracked_threw [OF t]
  show ?thesis by simp
qed

theorem tracking_label_changes_responses_witness:
  "sent (snd (handleMessage plainExternals (MethodCall 1 7 ''increment'' []) emptyWorld)) = []
   \<and> sent (snd (handleMessageUntracked plainExternals (MethodCall 1 7 ''increment'' []) emptyWorld))
       = [\<lparr>channel = ''service_framework3_rpc'', msg_type = ''ErrorMessage'',
           requestId = 1, hadError = True, result = None,
           error = Some (JObject
             [(''message'', JStr ''UnknownObject: 7''), (''code'', JUndefined),
              (''stack'', JStr ''Error: UnknownObject: 7'')])\<rparr>]
   \<and> sent (snd (handleMessage plainExternals (DisposeObject 1 7) emptyWorld)) = []
   \<and> sent (snd (handleMessageUntracked plainExternals (DisposeObject 1 7) emptyWorld))
       = [\<lparr>channel = ''service_framework3_rpc'', msg_type = ''ErrorMessage'',
           requestId = 1, hadError = True, result = None,
           error = Some (JObject
             [(''message'', JStr ''UnknownObject: 7''), (''code'', JUndefined),
              (''stack'', JStr ''Error: UnknownObject: 7'')])\<rparr>]
   \<and> sent (snd (handleMessage plainExternals (OtherMessage 1 ''Ping'') emptyWorld)) = []
   \<and> sent (snd (handleMessageUntracked plainExternals (OtherMessage 1 ''Ping'') emptyWorld))
       = [\<lparr>channel = ''service_framework3_rpc'', msg_type = ''ErrorMessage'',
           requestId = 1, hadError = True, result = None,
           error = Some (JObject
             [(''message'', JStr ''Unkown message type Ping''), (''code'', JUndefined),
              (''stack'', JStr ''Error: Unkown message type Ping'')])\<rparr>]"
proof -
  have h: "registrations (objectRegistry (server emptyWorld)) 7 = None"
    by (simp add: emptyWorld_def emptyServer_def emptyRegistry_def)
  have n: "showNat 7 = ''7''"
    by (simp add: showNat.simps)
  have e: "sent emptyWorld = []"
    by (simp add: emptyWorld_def)
  from tracking_label_changes_responses [OF h, of plainExternals 1 "''increment''" "[]" "''Ping''"]
  show ?thesis by (simp add: n e)
qed


lemma tryCatch_threw:
  assumes "switchMessage E tracker message w = (Threw e, w')" and "e \<noteq> JNull"
  shows "\<exists>body. fst (tryCatch E tracker message w) = Fulfilled
           \<and> sent (snd (tryCatch E tracker message w)) =
               sent w' @ [\<lparr>channel = ''service_framework3_rpc'', msg_type = ''ErrorMessage'',
                           requestId = requestIdOf message, hadError = True, result = None,
                           error = Some body\<rparr>]"
  using assms
  by (cases e)
     (simp_all add: tryCatch_def createErrorMessage_def onError_def sendSocketMessage_def Let_def
        split: option.splits)

text \<open>
  C1. Every error raised while a request is handled is claimed to be caught
  and turned into one error response, none escaping \<open>handleMessage\<close>. A method
  call on an object id that the registry does not hold fails inside
  \<open>trackingIdOfMessage\<close>, outside the \<open>try\<close>: the error escapes as the rejection
  of the handler, and no response is sent.
\<close>

theorem unknown_object_escapes_handleMessage:
  "registrations (objectRegistry (server w)) objectId = None \<Longrightarrow>
   handleMessage E (MethodCall rid objectId m args) w =
     (RejectedWith (unknownObject objectId), w)"
  by (simp add: handleMessage_def trackingIdOfMessage_def registryGet_def)

theorem unknown_object_escapes_handleMessage_witness:
  "registrations (objectRegistry (server emptyWorld)) 7 = None \<and>
   handleMessage plainExternals (MethodCall 1 7 ''increment'' []) emptyWorld
     = (RejectedWith (unknownObject 7), emptyWorld)"
  using unknown_object_escapes_handleMessage
          [of emptyWorld 7 plainExternals 1 "''increment''" "[]"]
  by (simp add: emptyWorld_def emptyServer_def emptyRegistry_def)

subsection \<open>Promise results\<close>

lemma returnPromise_resolved:
  assumes "marshal E v ty (server w) = (Inr res, s)"
  shows "fst (returnPromise E rid tracker (JPromise (Resolves v)) ty w) = Inr ()"
    and "sent (snd (returnPromise E rid tracker (JPromise (Resolves v)) ty w))
           = sent w @ [createPromiseMessage rid res]"
  using assms
  by (simp_all add: returnPromise_def promiseSettled_def onSuccess_def sendSocketMessage_def
      split: option.splits)

lemma promiseRejected_sent:
  assumes "err \<noteq> JNull"
  shows "\<exists>body. formatError err = Inr body \<and>
           sent (promiseRejected rid tracker err w) =
             sent w @ [\<lparr>channel = ''service_framework3_rpc'', msg_type = ''ErrorMessage'',
                        requestId = rid, hadError = True, result = None, error = Some body\<rparr>]"
  using assms
  by (cases err)
     (simp_all add: promiseRejected_def createErrorMessage_def onError_def sendSocketMessage_def
        split: option.splits)

lemma returnPromise_rejected:
  "fst (returnPromise E rid tracker (JPromise (Rejects err)) ty w) = Inr ()"
  "sent (snd (returnPromise E rid tracker (JPromise (Rejects err)) ty w))
     = sent (promiseRejected rid tracker err w)"
  by (simp_all add: returnPromise_def promiseSettled_def)

lemma returnPromise_marshal_failed:
  assumes "marshal E v ty (server w) = (Inl err, s)"
  shows "fst (returnPromise E rid tracker (JPromise (Resolves v)) ty w) = Inr ()"
    and "sent (snd (returnPromise E rid tracker (JPromise (Resolves v)) ty w))
           = sent (promiseRejected rid tracker err w)"
  using assms
  by (simp_all add: returnPromise_def promiseSettled_def promiseRejected_def onError_def
      sendSocketMessage_def split: sum.splits option.splits)

lemma returnPromise_not_thenable:
  assumes "\<not> isThenable v"
  shows "fst (returnPromise E rid tracker v ty w) = Inr ()"
    and "sent (snd (returnPromise E rid tracker v ty w))
           = sent (promiseRejected rid tracker
                (newError ''Expected a Promise, but the function returned something else.'') w)"
  using assms by (simp_all add: returnPromise_def promiseSettled_def)

lemma returnPromise_pending:
  "returnPromise E rid tracker (JPromise Pending) ty w = (Inr (), w)"
  by (simp add: returnPromise_def promiseSettled_def)

lemma returnPromise_then_not_callable:
  assumes "hasTruthy ps ''then''"
  shows "returnPromise E rid tracker (JObject ps) ty w =
           (Inl (typeError ''returnVal.then is not a function''), w)"
  using assms by (simp add: returnPromise_def)

text \<open>
  C4. A call of promise return kind is claimed to be answered by exactly one
  response, an error response if the promise rejects. When the promise rejects
  with \<open>null\<close>, \<open>formatError\<close> throws inside the rejection callback before
  anything is sent: the handler finishes, and the only trace of the request is
  the started tracking span.
\<close>

theorem null_rejection_gets_no_reply:
  assumes "functionsByName (server w) f = Some impl"
    and "returnType (fn_type impl) = PromiseType t"
    and "unmarshalArguments E (objectRegistry (server w)) args (argumentTypes (fn_type impl))
           = Inr margs"
    and "applyTo (fn_localImplementation impl) margs = Inr (JPromise (Rejects JNull))"
  shows "handleMessage E (FunctionCall rid f args) w =
           (Fulfilled, startTracking (''service-framework:'' @ f) w)"
  using assms
  by (simp add: handleMessage_def trackingIdOfMessage_def tryCatch_def switchMessage_def
      callFunction_def getFunctionImplemention_def returnValue_def returnPromise_def
      promiseSettled_def promiseRejected_def createErrorMessage_def startTracking_def)

theorem null_rejection_gets_no_reply_witness:
  "handleMessage plainExternals (FunctionCall 3 ''svc/ask'' [])
     (worldWith ''svc/ask'' (\<lambda>args. Inr (JPromise (Rejects JNull))) (PromiseType (OtherType ''number'')))
   = (Fulfilled,
      startTracking ''service-framework:svc/ask''
        (worldWith ''svc/ask'' (\<lambda>args. Inr (JPromise (Rejects JNull)))
           (PromiseType (OtherType ''number''))))
   \<and> sent (startTracking ''service-framework:svc/ask''
        (worldWith ''svc/ask'' (\<lambda>args. Inr (JPromise (Rejects JNull)))
           (PromiseType (OtherType ''number'')))) = []"
  using null_rejection_gets_no_reply
          [of "worldWith ''svc/ask'' (\<lambda>args. Inr (JPromise (Rejects JNull)))
                 (PromiseType (OtherType ''number''))"
              "''svc/ask''"
              "\<lparr>fn_localImplementation = Some (\<lambda>args. Inr (JPromise (Rejects JNull))),
                fn_type = \<lparr>argumentTypes = [], returnType = PromiseType (OtherType ''number'')\<rparr>\<rparr>"
              "OtherType ''number''" plainExternals "[]" "[]" 3]
  by (simp add: worldWith_def emptyWorld_def emptyServer_def plainExternals_def applyTo_def
      startTracking_def)

subsection \<open>Registration of interfaces\<close>

lemma counterWorld_server:
  "server counterWorld = emptyServer\<lparr>
      typeRegistry := \<lparr>namedTypes = [(''Counter'', ObjectMarshaller ''Counter''), (''NuclideUri'', IdentityMarshaller)]\<rparr>,
      classesByName := [''Counter'' \<mapsto> \<lparr>cls_localImplementation = Some \<lparr>construct = (\<lambda>args. Inr (JInstance 0)), statics = Map.empty\<rparr>, cls_definition = counterDefinition\<rparr>]\<rparr>"
  by (simp add: counterWorld_def newServerComponent_def counterExternals_def plainExternals_def
      registerType_def addService_def emptyServer_def counterDefinition_def Let_def)

lemma counterWorld_sent: "sent counterWorld = []"
  by (simp add: counterWorld_def emptyWorld_def)

lemma registerFunction_classesByName:
  "registerFunction name f ty s = (r, s') \<Longrightarrow> classesByName s' = classesByName s"
  by (auto simp: registerFunction_def split: if_splits)

lemma registerStatics_Some_classesByName:
  "classesByName (snd (registerStatics name (Some c) ms s)) = classesByName s"
proof (induction ms arbitrary: s)
  case Nil
  show ?case by simp
next
  case (Cons m ms)
  show ?case
    by (cases m) (auto simp: Cons.IH dest: registerFunction_classesByName
        split: prod.splits sum.splits)
qed

lemma registerStatics_classesByName:
  "classesByName (snd (registerStatics name cls ms s)) = classesByName s"
proof (cases cls)
  case None
  then show ?thesis by (cases ms) auto
next
  case (Some c)
  then show ?thesis by (simp add: registerStatics_Some_classesByName)
qed

lemma registerStatics_fresh:
  assumes "distinct (map fst ms)"
    and "\<forall>k \<in> set (map fst ms). functionsByName s (name @ ''/'' @ k) = None"
  shows "fst (registerStatics name (Some c) ms s) = Inr ()"
  using assms
proof (induction ms arbitrary: s)
  case Nil
  show ?case by simp
next
  case (Cons m ms)
  obtain funcName funcType where m: "m = (funcName, funcType)" by (cases m)
  let ?s1 = "s\<lparr>functionsByName := (functionsByName s)(name @ ''/'' @ funcName \<mapsto>
              \<lparr>fn_localImplementation = statics c funcName, fn_type = funcType\<rparr>)\<rparr>"
  have rf: "registerFunction (name @ ''/'' @ funcName) (statics c funcName) funcType s = (Inr (), ?s1)"
    using Cons.prems(2) by (simp add: registerFunction_def m dom_def)
  have d: "distinct (map fst ms)" using Cons.prems(1) by simp
  have f: "\<forall>k \<in> set (map fst ms). functionsByName ?s1 (name @ ''/'' @ k) = None"
    using Cons.prems by (auto simp: m)
  from Cons.IH [OF d f] rf show ?case by (simp add: m)
qed

text \<open>
  C10. A second interface definition under a name that the class table already
  holds does not fail at the class table: the new entry replaces the old one,
  whatever the rest of the registration does. The only duplicate check is the one
  on the keys of the function table: when the Type Registry accepts the name,
  the module exports the class, and the keys of the static methods are distinct
  and not yet in the function table, the registration succeeds.
\<close>

theorem interface_redefinition_replaces:
  assumes "classesByName s (if_name d) = Some old"
  shows "classesByName (snd (registerDefinition E serviceName localImpl (InterfaceDef d) s)) (if_name d)
           = Some \<lparr>cls_localImplementation = mod_classes localImpl (if_name d), cls_definition = d\<rparr>
         \<and> (registerTypeError E (map fst (namedTypes (typeRegistry s))) (if_name d) = None
              \<and> mod_classes localImpl (if_name d) = Some c
              \<and> distinct (map fst (staticMethods d))
              \<and> (\<forall>k \<in> set (map fst (staticMethods d)).
                    functionsByName s (if_name d @ ''/'' @ k) = None)
            \<longrightarrow> fst (registerDefinition E serviceName localImpl (InterfaceDef d) s) = Inr ())"
proof -
  have "fst (registerDefinition E serviceName localImpl (InterfaceDef d) s) = Inr ()"
    if "registerTypeError E (map fst (namedTypes (typeRegistry s))) (if_name d) = None"
      and "mod_classes localImpl (if_name d) = Some c"
      and "distinct (map fst (staticMethods d))"
      and "\<forall>k \<in> set (map fst (staticMethods d)). functionsByName s (if_name d @ ''/'' @ k) = None"
    using that by (simp add: Let_def registerType_def registerStatics_fresh)
  then show ?thesis
    by (simp add: Let_def registerType_def registerStatics_classesByName split: option.splits)
qed

theorem interface_redefinition_replaces_witness:
  "classesByName (server counterWorld) (if_name counterWithStatic)
     = Some \<lparr>cls_localImplementation =
               Some \<lparr>construct = (\<lambda>args. Inr (JInstance 0)), statics = Map.empty\<rparr>,
             cls_definition = counterDefinition\<rparr>
   \<and> classesByName (snd (registerDefinition plainExternals ''Other'' counterModule
         (InterfaceDef counterWithStatic) (server counterWorld))) (if_name counterWithStatic)
     = Some \<lparr>cls_localImplementation = mod_classes counterModule (if_name counterWithStatic),
             cls_definition = counterWithStatic\<rparr>
   \<and> fst (registerDefinition plainExternals ''Other'' counterModule
         (InterfaceDef counterWithStatic) (server counterWorld)) = Inr ()"
proof -
  have n: "if_name counterWithStatic = ''Counter''"
    by (simp add: counterWithStatic_def counterDefinition_def)
  have h: "classesByName (server counterWorld) (if_name counterWithStatic)
     = Some \<lparr>cls_localImplementation =
               Some \<lparr>construct = (\<lambda>args. Inr (JInstance 0)), statics = Map.empty\<rparr>,
             cls_definition = counterDefinition\<rparr>"
    by (simp add: n counterWorld_server)
  have t: "registerTypeError plainExternals
             (map fst (namedTypes (typeRegistry (server counterWorld))))
             (if_name counterWithStatic) = None"
    by (simp add: plainExternals_def)
  have c: "mod_classes counterModule (if_name counterWithStatic)
             = Some \<lparr>construct = (\<lambda>args. Inr (JInstance 1)),
                     statics = [''create'' \<mapsto> (\<lambda>args. Inr (JPromise (Resolves (JInstance 2))))]\<rparr>"
    by (simp add: n counterModule_def)
  have d: "distinct (map fst (staticMethods counterWithStatic))"
    by (simp add: counterWithStatic_def)
  have f: "\<forall>k \<in> set (map fst (staticMethods counterWithStatic)).
             functionsByName (server counterWorld) (if_name counterWithStatic @ ''/'' @ k) = None"
    by (simp add: counterWithStatic_def counterWorld_server emptyServer_def)
  from interface_redefinition_replaces [OF h, of plainExternals "''Other''" counterModule] h t c d f
  show ?thesis by simp
qed

subsection \<open>Disposal of objects\<close>

lemma returnPromise_void_server:
  "server (snd (returnPromise E rid tracker c VoidType w)) = server w"
  by (simp add: returnPromise_def promiseSettled_def marshal_def promiseRejected_def onError_def
      onSuccess_def sendSocketMessage_def Let_def
      split: settlement.splits sum.splits option.splits jsval.splits)

lemma handleMessage_DisposeObject_unknown:
  "registrations (objectRegistry (server w)) objectId = None \<Longrightarrow>
   handleMessage E (DisposeObject rid objectId) w = (RejectedWith (unknownObject objectId), w)"
  by (simp add: handleMessage_def trackingIdOfMessage_def registryGet_def)

lemma disposed_object_is_gone:
  assumes "registrations (objectRegistry (server w)) objectId = Some reg"
  shows "registrations (objectRegistry (server (snd (handleMessage E (DisposeObject rid objectId) w))))
           objectId = None"
  using assms
  by (simp add: handleMessage_def trackingIdOfMessage_def registryGet_def tryCatch_def
      switchMessage_def disposeObject_def startTracking_def setRegistry_def voidType_def
      returnPromise_void_server onError_def sendSocketMessage_def Let_def split_def
      split: settlement.splits sum.splits option.splits)

text \<open>
  C5. The second \<open>DisposeObject\<close> for an object id is claimed to be answered
  with an error response carrying the request id. After the first disposal the
  id is unknown, \<open>trackingIdOfMessage\<close> throws before the \<open>try\<close>, and the second
  request is rejected without any response.
\<close>

theorem second_dispose_gets_no_reply:
  assumes "registrations (objectRegistry (server w)) objectId = Some reg"
  shows "handleMessage E (DisposeObject rid2 objectId)
           (snd (handleMessage E (DisposeObject rid1 objectId) w))
         = (RejectedWith (unknownObject objectId),
            snd (handleMessage E (DisposeObject rid1 objectId) w))"
  by (rule handleMessage_DisposeObject_unknown) (rule disposed_object_is_gone [OF assms])

theorem second_dispose_gets_no_reply_witness:
  "registrations (objectRegistry (server
      (snd (handleMessage counterExternals (NewObject 1 ''Counter'' [JNum 5]) counterWorld)))) 1
     = Some \<lparr>reg_interface = ''Counter'', reg_object = JInstance 0\<rparr>
   \<and> sent (snd (handleMessage counterExternals (DisposeObject 2 1)
          (snd (handleMessage counterExternals (NewObject 1 ''Counter'' [JNum 5]) counterWorld))))
     = [createPromiseMessage 1 (JNum 1), createPromiseMessage 2 JUndefined]
   \<and> handleMessage counterExternals (DisposeObject 3 1)
       (snd (handleMessage counterExternals (DisposeObject 2 1)
          (snd (handleMessage counterExternals (NewObject 1 ''Counter'' [JNum 5]) counterWorld))))
     = (RejectedWith (unknownObject 1),
        snd (handleMessage counterExternals (DisposeObject 2 1)
          (snd (handleMessage counterExternals (NewObject 1 ''Counter'' [JNum 5]) counterWorld))))"
proof -
  have h: "registrations (objectRegistry (server
      (snd (handleMessage counterExternals (NewObject 1 ''Counter'' [JNum 5]) counterWorld)))) 1
     = Some \<lparr>reg_interface = ''Counter'', reg_object = JInstance 0\<rparr>"
    by (simp add: handleMessage_def trackingIdOfMessage_def tryCatch_def switchMessage_def
      callConstructor_def counterWorld_server emptyServer_def counterExternals_def
      plainExternals_def returnPromise_def promiseSettled_def promiseResolve_def marshal_def
      registryAdd_def
      emptyRegistry_def startTracking_def onSuccess_def sendSocketMessage_def Let_def)
  have s: "sent (snd (handleMessage counterExternals (DisposeObject 2 1)
          (snd (handleMessage counterExternals (NewObject 1 ''Counter'' [JNum 5]) counterWorld))))
     = [createPromiseMessage 1 (JNum 1), createPromiseMessage 2 JUndefined]"
    by (simp add: handleMessage_def trackingIdOfMessage_def tryCatch_def switchMessage_def
      callConstructor_def counterWorld_server emptyServer_def counterExternals_def
      plainExternals_def returnPromise_def promiseSettled_def promiseResolve_def marshal_def
      registryAdd_def
      registryGet_def disposeObject_def setRegistry_def voidType_def counterWorld_sent
      emptyRegistry_def startTracking_def onSuccess_def sendSocketMessage_def Let_def)
  from second_dispose_gets_no_reply [OF h, of counterExternals 3 2] h s
  show ?thesis by simp
qed


subsection \<open>Observable results\<close>

lemma returnObservable_not_observable:
  assumes "\<not> isObservable v"
    and "subscriptions (objectRegistry (server w)) rid = None"
  shows "fst (returnObservable E rid v t w) = Inr ()"
    and "sent (snd (returnObservable E rid v t w)) =
           sent w @ [\<lparr>channel = ''service_framework3_rpc'', msg_type = ''ErrorMessage'',
              requestId = rid, hadError = True, result = None,
              error = Some (JObject
                [(''message'', JStr ''Expected an Observable, but the function returned something else.''),
                 (''code'', JUndefined),
                 (''stack'', JStr ''Error: Expected an Observable, but the function returned something else.'')])\<rparr>]"
    and "streams (snd (returnObservable E rid v t w)) (nextSubscription w) = None"
    and "subscriptions (objectRegistry (server (snd (returnObservable E rid v t w)))) rid
             = Some (nextSubscription w)"
  using assms
  by (simp_all add: returnObservable_def subscribe_def deliver_def streamError_def
      createErrorMessage_newError sendSocketMessage_def setRegistry_def removeSubscription_def
      addSubscription_def Let_def)

text \<open>
  C7. After the terminal event of a stream has been sent, the registry is
  claimed to hold no subscription for the request. When the function returns
  something that is not an observable, the stream made in its place fails while
  \<open>subscribe\<close> runs: the error message is sent and \<open>removeSubscription\<close> is called
  before \<open>addSubscription\<close>, so the finished subscription stays in the registry.
\<close>

theorem synchronous_error_leaves_subscription:
  assumes "functionsByName (server w) f = Some impl"
    and "returnType (fn_type impl) = ObservableType t"
    and "unmarshalArguments E (objectRegistry (server w)) args (argumentTypes (fn_type impl))
           = Inr margs"
    and "applyTo (fn_localImplementation impl) margs = Inr v"
    and "\<not> isObservable v"
    and "subscriptions (objectRegistry (server w)) rid = None"
  shows "sent (snd (handleMessage E (FunctionCall rid f args) w)) =
           sent w @ [\<lparr>channel = ''service_framework3_rpc'', msg_type = ''ErrorMessage'',
              requestId = rid, hadError = True, result = None,
              error = Some (JObject
                [(''message'', JStr ''Expected an Observable, but the function returned something else.''),
                 (''code'', JUndefined),
                 (''stack'', JStr ''Error: Expected an Observable, but the function returned something else.'')])\<rparr>]
         \<and> streams (snd (handleMessage E (FunctionCall rid f args) w)) (nextSubscription w) = None
         \<and> subscriptions (objectRegistry (server (snd (handleMessage E (FunctionCall rid f args) w)))) rid
             = Some (nextSubscription w)"
proof -
  let ?w0 = "startTracking (''service-framework:'' @ f) w"
  have sub: "subscriptions (objectRegistry (server ?w0)) rid = None"
    using assms(6) by (simp add: startTracking_def)
  have same: "server ?w0 = server w" "sent ?w0 = sent w" "nextSubscription ?w0 = nextSubscription w"
    by (simp_all add: startTracking_def)
  obtain r w1 where ro: "returnObservable E rid v t ?w0 = (r, w1)"
    by (cases "returnObservable E rid v t ?w0")
  have r: "r = Inr ()"
    using returnObservable_not_observable(1) [OF assms(5) sub, of E t] ro by simp
  have hm: "handleMessage E (FunctionCall rid f args) w =
              (Fulfilled, onSuccess (Some (''service-framework:'' @ f)) w1)"
    using assms(1-4) ro r same(1)
    by (simp add: handleMessage_def trackingIdOfMessage_def tryCatch_def switchMessage_def
        callFunction_def getFunctionImplemention_def returnValue_def)
  show ?thesis
    using returnObservable_not_observable(2-4) [OF assms(5) sub, of E t] ro same
    by (simp add: hm onSuccess_def)
qed

theorem synchronous_error_leaves_subscription_witness:
  "sent (snd (handleMessage plainExternals (FunctionCall 4 ''svc/watch'' [])
           (worldWith ''svc/watch'' (\<lambda>args. Inr (JNum 5)) (ObservableType (OtherType ''number'')))))
     = [\<lparr>channel = ''service_framework3_rpc'', msg_type = ''ErrorMessage'',
              requestId = 4, hadError = True, result = None,
              error = Some (JObject
                [(''message'', JStr ''Expected an Observable, but the function returned something else.''),
                 (''code'', JUndefined),
                 (''stack'', JStr ''Error: Expected an Observable, but the function returned something else.'')])\<rparr>]
   \<and> streams (snd (handleMessage plainExternals (FunctionCall 4 ''svc/watch'' [])
           (worldWith ''svc/watch'' (\<lambda>args. Inr (JNum 5)) (ObservableType (OtherType ''number''))))) 0
       = None
   \<and> subscriptions (objectRegistry (server (snd (handleMessage plainExternals
           (FunctionCall 4 ''svc/watch'' [])
           (worldWith ''svc/watch'' (\<lambda>args. Inr (JNum 5)) (ObservableType (OtherType ''number''))))))) 4
       = Some 0"
  using synchronous_error_leaves_subscription
          [of "worldWith ''svc/watch'' (\<lambda>args. Inr (JNum 5)) (ObservableType (OtherType ''number''))"
              "''svc/watch''"
              "\<lparr>fn_localImplementation = Some (\<lambda>args. Inr (JNum 5)),
                fn_type = \<lparr>argumentTypes = [], returnType = ObservableType (OtherType ''number'')\<rparr>\<rparr>"
              "OtherType ''number''" plainExternals "[]" "[]" "JNum 5" 4]
  by (simp add: worldWith_def emptyWorld_def emptyServer_def emptyRegistry_def
      plainExternals_def applyTo_def)

lemma marshal_withSubscriptions:
  "marshal E v t (withSubscriptions m s) =
     (fst (marshal E v t s), withSubscriptions m (snd (marshal E v t s)))"
  by (simp add: marshal_def registryAdd_def withSubscriptions_def Let_def
      split: Type.splits option.splits marshaller.splits)

lemma marshal_subscriptions:
  "subscriptions (objectRegistry (snd (marshal E v t s))) = subscriptions (objectRegistry s)"
  by (simp add: marshal_def registryAdd_def Let_def
      split: Type.splits option.splits marshaller.splits)

lemma marshalAll_withSubscriptions:
  "marshalAll E t vs (withSubscriptions m s) =
     (fst (marshalAll E t vs s), withSubscriptions m (snd (marshalAll E t vs s)))"
proof (induction vs arbitrary: s)
  case Nil
  show ?case by simp
next
  case (Cons v vs)
  show ?case
    by (simp add: marshal_withSubscriptions Cons.IH split: prod.splits sum.splits)
qed

lemma createErrorMessage_requestId:
  "createErrorMessage rid e = Inr m \<Longrightarrow> requestId m = rid"
  by (auto simp: createErrorMessage_def split: sum.splits)

lemma emitting_next:
  assumes "emitting E h rid t (v # vs) ds x"
  shows "\<exists>d ds'. ds = d # ds' \<and> emitting E h rid t vs ds' (deliver E h x)
           \<and> sent (deliver E h x) = sent x @ [createNextMessage rid d]"
  using assms
  by (auto simp: emitting_def deliver_def sendSocketMessage_def split: prod.splits sum.splits)

lemma emitting_completed:
  assumes "emitting E h rid t [] ds x"
  shows "sent (deliver E h x) = sent x @ [createCompletedMessage rid]"
    and "streams (deliver E h x) h = None"
  using assms
  by (auto simp: emitting_def deliver_def streamCompleted_def sendSocketMessage_def
      setRegistry_def Let_def)

lemma emitting_Nil_ds: "emitting E h rid t [] ds x \<Longrightarrow> ds = []"
  by (simp add: emitting_def)

lemma deliver_finished: "streams x h = None \<Longrightarrow> deliver E h x = x"
  by (simp add: deliver_def)

lemma deliverN_finished: "streams x h = None \<Longrightarrow> deliverN E h n x = x"
  by (induction n) (simp_all add: deliver_finished)

lemma emitting_setRegistry:
  assumes "emitting E h rid t vs ds x"
  shows "emitting E h rid t vs ds
           (setRegistry (snd (addSubscription rid' h' (objectRegistry (server x)))) x)"
proof -
  have "\<exists>m. server (setRegistry (snd (addSubscription rid' h' (objectRegistry (server x)))) x)
          = withSubscriptions m (server x)"
    by (auto simp: setRegistry_def addSubscription_def withSubscriptions_def split: option.splits
        intro: exI [of _ "subscriptions (objectRegistry (server x))"])
  then obtain m where
    "server (setRegistry (snd (addSubscription rid' h' (objectRegistry (server x)))) x)
          = withSubscriptions m (server x)" ..
  then show ?thesis
    using assms by (simp add: emitting_def marshalAll_withSubscriptions) (simp add: setRegistry_def)
qed

lemma emitting_run:
  assumes "emitting E h rid t vs ds x"
  shows "sent (deliverN E h (Suc (length vs)) x) = sent x @ map (createNextMessage rid) ds
           @ [createCompletedMessage rid]"
  using assms
proof (induction vs arbitrary: ds x)
  case Nil
  then show ?case using emitting_completed(1) [OF Nil] emitting_Nil_ds [OF Nil] by simp
next
  case (Cons v vs)
  from emitting_next [OF Cons.prems] obtain d ds' where
    d: "ds = d # ds'" "emitting E h rid t vs ds' (deliver E h x)"
       "sent (deliver E h x) = sent x @ [createNextMessage rid d]" by blast
  from Cons.IH [OF d(2)] d(1,3) show ?case by simp
qed

lemma emitting_interrupted:
  assumes "emitting E h rid t vs ds x" and "k + n = Suc (length vs)"
  shows "sent (deliverN E h n
           (setRegistry (snd (addSubscription rid' h' (objectRegistry (server (deliverN E h k x)))))
              (deliverN E h k x)))
         = sent x @ map (createNextMessage rid) ds @ [createCompletedMessage rid]"
  using assms
proof (induction k arbitrary: vs ds x)
  case 0
  then have n: "n = Suc (length vs)" by simp
  from emitting_run [OF emitting_setRegistry [OF "0.prems"(1), of rid' h']]
  show ?case by (simp add: n) (simp add: setRegistry_def)
next
  case (Suc k)
  show ?case
  proof (cases vs)
    case Nil
    with Suc.prems have k: "k = 0" "n = 0" by simp_all
    from Suc.prems(1) Nil have e: "emitting E h rid t [] ds x" by simp
    show ?thesis
      using emitting_completed [OF e] emitting_Nil_ds [OF e]
      by (simp add: k Nil) (simp add: setRegistry_def)
  next
    case (Cons v vs')
    from emitting_next [OF Suc.prems(1) [unfolded Cons]] obtain d ds' where
      d: "ds = d # ds'" "emitting E h rid t vs' ds' (deliver E h x)"
         "sent (deliver E h x) = sent x @ [createNextMessage rid d]" by blast
    have kn: "k + n = Suc (length vs')" using Suc.prems(2) Cons by simp
    from Suc.IH [OF d(2) kn] d(1,3) show ?thesis by simp
  qed
qed

lemma deliver_streams:
  assumes "streams (deliver E h x) h' = Some ls'"
  shows "\<exists>ls. streams x h' = Some ls \<and> ls_requestId ls = ls_requestId ls'"
  using assms
  by (auto simp: deliver_def streamError_def streamCompleted_def sendSocketMessage_def
      setRegistry_def Let_def
      split: option.splits list.splits event.splits prod.splits sum.splits if_splits)

lemma deliver_subscriptions:
  "subscriptions (objectRegistry (server (deliver E h x))) r
     = subscriptions (objectRegistry (server x)) r
   \<or> (subscriptions (objectRegistry (server (deliver E h x))) r = None
      \<and> (\<exists>ls. streams x h = Some ls \<and> ls_requestId ls = r)
      \<and> streams (deliver E h x) h = None)"
proof -
  have m: "\<And>v t s s' res. marshal E v t s = (res, s') \<Longrightarrow>
             subscriptions (objectRegistry s') = subscriptions (objectRegistry s)"
    using marshal_subscriptions by (metis snd_conv)
  show ?thesis
    by (auto simp: deliver_def streamError_def streamCompleted_def sendSocketMessage_def
        setRegistry_def removeSubscription_def Let_def dest: m
        split: option.splits list.splits event.splits prod.splits sum.splits)
qed

lemma deliver_sent:
  "sent (deliver E h x) = sent x
   \<or> (\<exists>m ls. sent (deliver E h x) = sent x @ [m] \<and> streams x h = Some ls
        \<and> requestId m = ls_requestId ls)"
  by (auto simp: deliver_def streamError_def streamCompleted_def sendSocketMessage_def
      setRegistry_def Let_def createNextMessage_def createCompletedMessage_def
      dest: createErrorMessage_requestId
      split: option.splits list.splits event.splits prod.splits sum.splits)

lemma deliver_onlyAt: "onlyAt rid h0 x \<Longrightarrow> onlyAt rid h0 (deliver E h x)"
  unfolding onlyAt_def by (metis deliver_streams)

lemma deliver_quiet: "quiet rid x \<Longrightarrow> quiet rid (deliver E h x)"
  unfolding quiet_def by (metis deliver_streams)

lemma deliver_quiet_sent:
  "quiet rid x \<Longrightarrow> filter (\<lambda>m. requestId m = rid) (sent (deliver E h x))
                    = filter (\<lambda>m. requestId m = rid) (sent x)"
  using deliver_sent [of E h x] unfolding quiet_def by auto

lemma deliveries_quiet:
  "quiet rid x \<Longrightarrow> quiet rid (deliveries E hs x)
     \<and> filter (\<lambda>m. requestId m = rid) (sent (deliveries E hs x))
         = filter (\<lambda>m. requestId m = rid) (sent x)"
  unfolding deliveries_def
proof (induction hs arbitrary: x)
  case Nil
  then show ?case by simp
next
  case (Cons h hs)
  from Cons.IH [OF deliver_quiet [OF Cons.prems, of E h]] deliver_quiet_sent [OF Cons.prems, of E h]
  show ?case by simp
qed

lemma deliver_registering: "registering rid h0 x \<Longrightarrow> registering rid h0 (deliver E h x)"
  unfolding registering_def
  using deliver_subscriptions [of E h x rid] deliver_onlyAt [of rid h0 x E h] by auto

lemma deliverN_registering: "registering rid h0 x \<Longrightarrow> registering rid h0 (deliverN E h n x)"
  by (induction n arbitrary: x) (simp_all add: deliver_registering)

lemma deliver_registered: "registered rid h0 x \<Longrightarrow> registered rid h0 (deliver E h x)"
proof -
  assume r: "registered rid h0 x"
  then have o: "onlyAt rid h0 (deliver E h x)" by (simp add: registered_def deliver_onlyAt)
  have "subscriptions (objectRegistry (server (deliver E h x))) rid = Some h0"
    if live: "streams (deliver E h x) h0 \<noteq> None"
  proof -
    from live deliver_streams [of E h x h0] have "streams x h0 \<noteq> None" by auto
    with r have s: "subscriptions (objectRegistry (server x)) rid = Some h0"
      by (simp add: registered_def)
    from deliver_subscriptions [of E h x rid] show ?thesis
    proof
      assume "subscriptions (objectRegistry (server (deliver E h x))) rid
                = subscriptions (objectRegistry (server x)) rid"
      with s show ?thesis by simp
    next
      assume a: "subscriptions (objectRegistry (server (deliver E h x))) rid = None
          \<and> (\<exists>ls. streams x h = Some ls \<and> ls_requestId ls = rid)
          \<and> streams (deliver E h x) h = None"
      with r have "h = h0" by (auto simp: registered_def onlyAt_def)
      with a live show ?thesis by simp
    qed
  qed
  with o show ?thesis by (auto simp: registered_def)
qed

lemma deliveries_registered: "registered rid h0 x \<Longrightarrow> registered rid h0 (deliveries E hs x)"
  unfolding deliveries_def
  by (induction hs arbitrary: x) (simp_all add: deliver_registered)

lemma addSubscription_registered:
  assumes "registering rid h0 x"
  shows "registered rid h0 (setRegistry (snd (addSubscription rid h0 (objectRegistry (server x)))) x)"
  using assms
  by (auto simp: registering_def registered_def onlyAt_def setRegistry_def addSubscription_def)

lemma handleMessage_DisposeObservable:
  "handleMessage E (DisposeObservable rid) x =
     (Fulfilled, onSuccess (Some ''service-framework:disposeObservable'')
        (disposeSubscription rid (startTracking ''service-framework:disposeObservable'' x)))"
  by (simp add: handleMessage_def trackingIdOfMessage_def tryCatch_def switchMessage_def)

lemma dispose_quiet:
  assumes "registered rid h0 x"
  shows "quiet rid (snd (handleMessage E (DisposeObservable rid) x))"
    and "sent (snd (handleMessage E (DisposeObservable rid) x)) = sent x"
  using assms
  by (auto simp: handleMessage_DisposeObservable onSuccess_def disposeSubscription_def
      startTracking_def setRegistry_def registered_def onlyAt_def quiet_def
      split: option.splits if_splits)

subsection \<open>The tracking span when its label computes\<close>

text \<open>
  The callbacks of the tracker write to its log only. Whenever
  \<open>trackingIdOfMessage\<close> returns a label, the handler settles as the dispatcher
  without the span does and sends the same messages.
\<close>

lemma untracked_fields [simp]:
  "server (untracked w) = server w"
  "streams (untracked w) = streams w"
  "nextSubscription (untracked w) = nextSubscription w"
  "sent (untracked w) = sent w"
  by (simp_all add: untracked_def)

lemma untracked_idem [simp]: "untracked (untracked w) = untracked w"
  by (simp add: untracked_def)

lemma untracked_tracker [simp]:
  "untracked (startTracking label w) = untracked w"
  "untracked (onSuccess tracker w) = untracked w"
  "untracked (onError tracker e w) = untracked w"
  by (simp_all add: untracked_def startTracking_def onSuccess_def onError_def split: option.splits)

lemma untracked_send [simp]:
  "untracked (sendSocketMessage m w) = sendSocketMessage m (untracked w)"
  by (simp add: untracked_def sendSocketMessage_def)

lemma untracked_setRegistry [simp]:
  "untracked (setRegistry r w) = setRegistry r (untracked w)"
  by (simp add: untracked_def setRegistry_def)

lemma untracked_server_update [simp]:
  "untracked (w\<lparr>server := s\<rparr>) = (untracked w)\<lparr>server := s\<rparr>"
  "untracked (w\<lparr>streams := st\<rparr>) = (untracked w)\<lparr>streams := st\<rparr>"
  "untracked (w\<lparr>nextSubscription := n\<rparr>) = (untracked w)\<lparr>nextSubscription := n\<rparr>"
  by (simp_all add: untracked_def)

lemma sendSocketMessage_fields [simp]:
  "server (sendSocketMessage m w) = server w"
  "streams (sendSocketMessage m w) = streams w"
  "nextSubscription (sendSocketMessage m w) = nextSubscription w"
  by (simp_all add: sendSocketMessage_def)

lemma no_tracker [simp]:
  "onSuccess None w = w"
  "onError None e w = w"
  by (simp_all add: onSuccess_def onError_def)

lemma untracked_promiseRejected [simp]:
  "untracked (promiseRejected rid tracker err w) = promiseRejected rid None err (untracked w)"
  by (simp add: promiseRejected_def split: sum.splits)

lemma untracked_promiseSettled [simp]:
  "untracked (promiseSettled E rid tracker ty p w) = promiseSettled E rid None ty p (untracked w)"
  by (simp add: promiseSettled_def split: settlement.splits prod.splits sum.splits)

lemma untracked_returnPromise:
  "fst (returnPromise E rid tracker c ty w) = fst (returnPromise E rid None c ty (untracked w))"
  "untracked (snd (returnPromise E rid tracker c ty w))
     = snd (returnPromise E rid None c ty (untracked w))"
  by (simp_all add: returnPromise_def split: jsval.splits)

lemma untracked_streamError [simp]:
  "untracked (streamError rid err w) = streamError rid err (untracked w)"
  by (simp add: streamError_def Let_def split: sum.splits)

lemma untracked_streamCompleted [simp]:
  "untracked (streamCompleted rid w) = streamCompleted rid (untracked w)"
  by (simp add: streamCompleted_def Let_def)

lemma untracked_deliver [simp]:
  "untracked (deliver E h w) = deliver E h (untracked w)"
  by (simp add: deliver_def
      split: option.splits list.splits event.splits prod.splits sum.splits)

lemma untracked_deliverN [simp]:
  "untracked (deliverN E h n w) = deliverN E h n (untracked w)"
  by (induction n arbitrary: w) simp_all

lemma untracked_disposeSubscription [simp]:
  "untracked (disposeSubscription rid w) = disposeSubscription rid (untracked w)"
  by (simp add: disposeSubscription_def split: option.splits)

lemma untracked_subscribe:
  "fst (subscribe E rid t sync later (untracked w)) = fst (subscribe E rid t sync later w)"
  "snd (subscribe E rid t sync later (untracked w)) = untracked (snd (subscribe E rid t sync later w))"
  by (simp_all add: subscribe_def Let_def)

lemma untracked_returnObservable:
  "fst (returnObservable E rid v t (untracked w)) = fst (returnObservable E rid v t w)"
  "snd (returnObservable E rid v t (untracked w)) = untracked (snd (returnObservable E rid v t w))"
  by (simp_all add: returnObservable_def untracked_subscribe split_def Let_def
      split: sum.splits jsval.splits)

lemma untracked_returnValue:
  "fst (returnValue E rid tracker v ty w) = fst (returnValue E rid None v ty (untracked w))"
  "untracked (snd (returnValue E rid tracker v ty w)) = snd (returnValue E rid None v ty (untracked w))"
  using untracked_returnPromise [of E rid tracker v _ w]
  by (simp_all add: returnValue_def untracked_returnObservable split_def
      split: Type.splits sum.splits)

lemma untracked_callFunction:
  "fst (callFunction E rid tracker f args w) = fst (callFunction E rid None f args (untracked w))"
  "untracked (snd (callFunction E rid tracker f args w))
     = snd (callFunction E rid None f args (untracked w))"
  using untracked_returnValue [of E rid tracker _ _ w]
  by (simp_all add: callFunction_def split: sum.splits)

lemma untracked_callMethod:
  "fst (callMethod E rid tracker objectId m args w)
     = fst (callMethod E rid None objectId m args (untracked w))"
  "untracked (snd (callMethod E rid tracker objectId m args w))
     = snd (callMethod E rid None objectId m args (untracked w))"
  using untracked_returnValue [of E rid tracker _ _ w]
  by (simp_all add: callMethod_def split: sum.splits option.splits)

lemma untracked_callConstructor:
  "fst (callConstructor E rid tracker i args w)
     = fst (callConstructor E rid None i args (untracked w))"
  "untracked (snd (callConstructor E rid tracker i args w))
     = snd (callConstructor E rid None i args (untracked w))"
  using untracked_returnPromise [of E rid tracker _ _ w]
  by (simp_all add: callConstructor_def split_def split: sum.splits option.splits)

lemma untracked_switchMessage:
  "fst (switchMessage E tracker message w) = fst (switchMessage E None message (untracked w))"
  "untracked (snd (switchMessage E tracker message w))
     = snd (switchMessage E None message (untracked w))"
  using untracked_callFunction [of E _ tracker _ _ w] untracked_callMethod [of E _ tracker _ _ _ w]
    untracked_callConstructor [of E _ tracker _ _ w]
    untracked_returnPromise [of E _ tracker _ _ "setRegistry _ w"]
  by (simp_all add: switchMessage_def split_def
      split: RequestMessage.splits completion.splits settlement.splits sum.splits)

lemma untracked_tryCatch:
  "fst (tryCatch E tracker message w) = fst (tryCatch E None message (untracked w))"
  "sent (snd (tryCatch E tracker message w)) = sent (snd (tryCatch E None message (untracked w)))"
proof -
  have u: "untracked (snd (tryCatch E tracker message w))
             = snd (tryCatch E None message (untracked w))"
    using untracked_switchMessage [of E tracker message w]
    by (simp add: tryCatch_def split_def Let_def split: completion.splits sum.splits)
  show "fst (tryCatch E tracker message w) = fst (tryCatch E None message (untracked w))"
    using untracked_switchMessage [of E tracker message w]
    by (simp add: tryCatch_def split_def Let_def split: completion.splits sum.splits)
  from arg_cong [OF u, of sent]
  show "sent (snd (tryCatch E tracker message w))
          = sent (snd (tryCatch E None message (untracked w)))"
    by simp
qed

lemma tracking_is_silent_when_label_computes:
  assumes "trackingIdOfMessage (server w) message = Inr label"
  shows "fst (handleMessage E message w) = fst (handleMessageUntracked E message w)"
    and "sent (snd (handleMessage E message w)) = sent (snd (handleMessageUntracked E message w))"
  using assms untracked_tryCatch [of E "Some label" message "startTracking label w"]
    untracked_tryCatch [of E None message w]
  by (simp_all add: handleMessage_def handleMessageUntracked_def)

subsection \<open>Streams of calls\<close>

lemma returnValue_observable_world:
  "snd (returnValue E rid tracker (JObservable sync later) (ObservableType t) w) =
     setRegistry
       (snd (addSubscription rid (nextSubscription w)
          (objectRegistry (server (deliverN E (nextSubscription w) (length sync)
             (w\<lparr>streams := (streams w)(nextSubscription w \<mapsto>
                  \<lparr>ls_requestId = rid, ls_elementType = t, ls_pending = sync @ later\<rparr>),
                nextSubscription := Suc (nextSubscription w)\<rparr>))))))
       (deliverN E (nextSubscription w) (length sync)
          (w\<lparr>streams := (streams w)(nextSubscription w \<mapsto>
               \<lparr>ls_requestId = rid, ls_elementType = t, ls_pending = sync @ later\<rparr>),
             nextSubscription := Suc (nextSubscription w)\<rparr>))"
  by (simp add: returnValue_def returnObservable_def subscribe_def Let_def
      split: prod.splits sum.splits)

lemma deliver_keeps_unregistered:
  "subscriptions (objectRegistry (server x)) rid = None \<Longrightarrow>
   subscriptions (objectRegistry (server (deliver E h x))) rid = None"
  using deliver_subscriptions [of E h x rid] by auto

lemma deliverN_keeps_unregistered:
  "subscriptions (objectRegistry (server x)) rid = None \<Longrightarrow>
   subscriptions (objectRegistry (server (deliverN E h n x))) rid = None"
  by (induction n arbitrary: x) (simp_all add: deliver_keeps_unregistered)

lemma returnValue_observable_returns:
  assumes "subscriptions (objectRegistry (server w)) rid = None"
  shows "fst (returnValue E rid tracker (JObservable sync later) (ObservableType t) w)
           = Returned False"
proof -
  let ?x = "w\<lparr>streams := (streams w)(nextSubscription w \<mapsto>
               \<lparr>ls_requestId = rid, ls_elementType = t, ls_pending = sync @ later\<rparr>),
             nextSubscription := Suc (nextSubscription w)\<rparr>"
  have "subscriptions (objectRegistry (server ?x)) rid = None"
    using assms by simp
  then have "subscriptions (objectRegistry
               (server (deliverN E (nextSubscription w) (length sync) ?x))) rid = None"
    by (rule deliverN_keeps_unregistered)
  then show ?thesis
    by (simp add: returnValue_def returnObservable_def subscribe_def addSubscription_def Let_def)
qed

lemma resumeCall_observable:
  assumes "pc_arguments p = Inr margs"
    and "applyTo (pc_target p) margs = Inr (JObservable sync later)"
    and "pc_returnType p = ObservableType t"
    and "subscriptions (objectRegistry (server w)) (pc_requestId p) = None"
  shows "resumeCall E p w =
           (Fulfilled,
            onSuccess (pc_tracker p)
              (snd (returnValue E (pc_requestId p) (pc_tracker p) (JObservable sync later)
                      (ObservableType t) w)))"
  using assms returnValue_observable_returns [OF assms(4), of E "pc_tracker p" sync later t]
  by (simp add: resumeCall_def split_def)

lemma registered_onSuccess:
  "registered rid h0 x \<Longrightarrow> registered rid h0 (onSuccess tracker x)"
  by (simp add: registered_def onlyAt_def onSuccess_def split: option.splits)

lemma sent_deliverN_onSuccess:
  "sent (deliverN E h n (onSuccess tracker x)) = sent (deliverN E h n x)"
proof -
  have "untracked (deliverN E h n (onSuccess tracker x)) = untracked (deliverN E h n x)"
    by simp
  from arg_cong [OF this, of sent] show ?thesis by (simp only: untracked_fields)
qed

text \<open>
  Handling a call as a whole is beginning it and resuming it at once, with
  nothing handled in between.
\<close>

lemma tryCatch_catchBlock:
  "tryCatch E tracker message w =
     (case switchMessage E tracker message w of
        (Returned returnedPromise, w') \<Rightarrow>
          (Fulfilled, if \<not> returnedPromise then onSuccess tracker w' else w')
      | (Threw e, w') \<Rightarrow> catchBlock tracker (requestIdOf message) e w'
      | (Hangs, w') \<Rightarrow> (NeverSettles, w'))"
  by (simp add: tryCatch_def catchBlock_def Let_def split: prod.splits completion.splits)

lemma handleMessage_across_await:
  "handleMessage E message w =
     resumeBegun E (fst (beginCall E message w)) (snd (beginCall E message w))"
proof (cases "trackingIdOfMessage (server w) message")
  case (Inl e)
  then show ?thesis by (simp add: handleMessage_def beginCall_def resumeBegun_def)
next
  case (Inr label)
  have s: "server (startTracking label w) = server w" by (simp add: startTracking_def)
  show ?thesis
  proof (cases message)
    case (FunctionCall rid f args)
    then show ?thesis
      using Inr
      by (simp add: handleMessage_def beginCall_def resumeBegun_def resumeCall_def
          tryCatch_catchBlock switchMessage_def callFunction_def Let_def split_def s
          split: sum.splits completion.splits)
  next
    case (MethodCall rid objectId m args)
    then show ?thesis
      using Inr
      by (simp add: handleMessage_def beginCall_def resumeBegun_def resumeCall_def
          tryCatch_catchBlock switchMessage_def callMethod_def Let_def split_def s
          split: sum.splits option.splits completion.splits)
  qed (use Inr in \<open>simp_all add: handleMessage_def beginCall_def resumeBegun_def Let_def split_def\<close>)
qed

lemma beginCall_watchCall:
  "beginCall plainExternals watchCall watchWorld =
     (Suspended watchPending, startTracking ''service-framework:svc/watch'' watchWorld)"
  by (simp add: beginCall_def watchCall_def watchWorld_def worldWith_def emptyWorld_def
      emptyServer_def trackingIdOfMessage_def getFunctionImplemention_def plainExternals_def
      startTracking_def watchPending_def Let_def)





end
